theory Spec2Isabelle
  imports Complex_Main "HOL-Library.Word" "HOL-Library.Sublist"
begin

section \<open>JavaScript strings\<close>

text \<open>
  A JavaScript string is a sequence of UTF-16 code units, and \<open>length\<close>, \<open>substring\<close>
  and \<open>slice\<close> count code units. The model keeps that: a string is a list of 16-bit
  words. \<open>js\<close> embeds a literal written with Latin-1 characters; the three emoji of the
  source are written as their surrogate pairs.
\<close>

type_synonym code_unit = "16 word"
type_synonym jsstring = "code_unit list"

definition js :: "string \<Rightarrow> jsstring" where
  "js s = map of_char s"

text \<open>The class \<open>\s\<close> of a JavaScript regular expression (WhiteSpace and LineTerminator).\<close>

definition is_space :: "code_unit \<Rightarrow> bool" where
  "is_space c \<longleftrightarrow>
     c \<in> {0x09, 0x0A, 0x0B, 0x0C, 0x0D, 0x20, 0xA0, 0x1680, 0x2028, 0x2029, 0x202F,
          0x205F, 0x3000, 0xFEFF} \<or> (0x2000 \<le> c \<and> c \<le> 0x200A)"

text \<open>\<open>s.replace(/\s+/g, '')\<close>: every run of white space is deleted.\<close>

definition strip_whitespace :: "jsstring \<Rightarrow> jsstring" where
  "strip_whitespace s = filter (\<lambda>c. \<not> is_space c) s"

text \<open>
  \<open>s.toLowerCase()\<close> on the letters A to Z. The Unicode case mapping of code units
  outside ASCII is not modelled: they are left as they are.
\<close>

definition lower_unit :: "code_unit \<Rightarrow> code_unit" where
  "lower_unit c = (if 0x41 \<le> c \<and> c \<le> 0x5A then c + 0x20 else c)"

definition toLowerCase :: "jsstring \<Rightarrow> jsstring" where
  "toLowerCase s = map lower_unit s"

text \<open>\<open>s.includes(t)\<close>: \<open>t\<close> occurs in \<open>s\<close> as a contiguous block.\<close>

definition str_includes :: "jsstring \<Rightarrow> jsstring \<Rightarrow> bool" where
  "str_includes s t \<longleftrightarrow> sublist t s"

text \<open>\<open>xs.join(sep)\<close>.\<close>

fun join :: "jsstring \<Rightarrow> jsstring list \<Rightarrow> jsstring" where
  "join sep [] = []"
| "join sep [x] = x"
| "join sep (x # y # ys) = x @ sep @ join sep (y # ys)"

section \<open>Platforms and per-platform formatting (distribution/capabilities.ts)\<close>

datatype platform = Twitter | LinkedIn | Telegram

fun platform_str :: "platform \<Rightarrow> jsstring" where
  "platform_str Twitter = js ''twitter''"
| "platform_str LinkedIn = js ''linkedin''"
| "platform_str Telegram = js ''telegram''"

text \<open>
  \<open>formatMessageForPlatform\<close>: the \<open>switch\<close> on the platform, with
  \<open>message.substring(0, 247)\<close> as \<open>take 247\<close>.
\<close>

fun formatMessageForPlatform :: "jsstring \<Rightarrow> platform \<Rightarrow> jsstring" where
  "formatMessageForPlatform message Twitter =
     (if length message > 250 then take 247 message @ js ''...'' else message)"
| "formatMessageForPlatform message LinkedIn = message"
| "formatMessageForPlatform message Telegram = message"

text \<open>The hashtag of one tag: \<open>`#${tag.replace(/\s+/g, '')}`\<close>.\<close>

definition hashtag :: "jsstring \<Rightarrow> jsstring" where
  "hashtag tag = js ''#'' @ strip_whitespace tag"

fun formatTags :: "jsstring list \<Rightarrow> platform \<Rightarrow> jsstring" where
  "formatTags tags Twitter = join (js '' '') (map hashtag (take 5 tags))"
| "formatTags tags LinkedIn = join (js '' '') (map hashtag (take 8 tags))"
| "formatTags tags Telegram = join (js '' '') (map hashtag tags)"

text \<open>
  \<open>formatTagsForPlatforms\<close>: the loop over the requested platforms fills the object
  \<open>formattedTags\<close>, here a map that starts empty.
\<close>

fun formatTagsLoop ::
  "jsstring list \<Rightarrow> platform list \<Rightarrow> (platform \<rightharpoonup> jsstring) \<Rightarrow> (platform \<rightharpoonup> jsstring)" where
  "formatTagsLoop tags [] formattedTags = formattedTags"
| "formatTagsLoop tags (p # ps) formattedTags =
     formatTagsLoop tags ps (formattedTags(p \<mapsto> formatTags tags p))"

definition formatTagsForPlatforms :: "jsstring list \<Rightarrow> platform list \<Rightarrow> (platform \<rightharpoonup> jsstring)" where
  "formatTagsForPlatforms tags platforms = formatTagsLoop tags platforms Map.empty"

text \<open>
  The text that \<open>distributeToSocial\<close> posts for one platform, its local \<open>fullMessage\<close>:
  \<open>`${platformMessage}\n\n${formattedTags[platform] || ''}`\<close>.
\<close>

definition fullMessage :: "jsstring \<Rightarrow> jsstring list \<Rightarrow> platform list \<Rightarrow> platform \<Rightarrow> jsstring" where
  "fullMessage message tags platforms p =
     (let formattedTags = formatTagsForPlatforms tags platforms;
          platformMessage = formatMessageForPlatform message p
      in platformMessage @ js [CHR 0x0A, CHR 0x0A]
           @ (case formattedTags p of None \<Rightarrow> [] | Some t \<Rightarrow> t))"

text \<open>The post limit of Twitter in \<open>getSupportedSocialPlatforms\<close> (\<open>characterLimits.post\<close>).\<close>

definition twitter_post_limit :: nat where
  "twitter_post_limit = 280"

text \<open>The five tags every payload gets from \<open>extractDefaultTags\<close>.\<close>

definition base_tags :: "jsstring list" where
  "base_tags = [js ''DeFi'', js ''crypto'', js ''blockchain'', js ''visualization'', js ''data'']"

section \<open>Numbers and their text\<close>

text \<open>
  A JavaScript number is read as the real number it denotes. The binary rounding of
  doubles, \<open>NaN\<close> and the infinities are outside the model, and so is the exponent
  notation that \<open>toFixed\<close> and \<open>String\<close> switch to from \<open>1e21\<close> on.
\<close>

type_synonym number = real

text \<open>The decimal digits of a natural number, as \<open>String(n)\<close> writes them.\<close>

function show_nat :: "nat \<Rightarrow> jsstring" where
  "show_nat n =
     (if n < 10 then [of_nat (48 + n)] else show_nat (n div 10) @ [of_nat (48 + n mod 10)])"
  by pat_completeness auto
termination
  by (relation "measure (\<lambda>n. n)") auto

declare show_nat.simps [simp del]

definition show_int :: "int \<Rightarrow> jsstring" where
  "show_int k = (if k < 0 then js ''-'' @ show_nat (nat (- k)) else show_nat (nat k))"

text \<open>
  \<open>x.toFixed(fractionDigits)\<close>, after ECMAScript's Number.prototype.toFixed: the sign is
  split off, \<open>n\<close> is the integer for which \<open>n / 10 ^ fractionDigits\<close> is closest to the
  absolute value (the larger one of two equally close), and its digits are written with
  the point before the last \<open>fractionDigits\<close> of them, padded with zeros.
\<close>

definition toFixed :: "nat \<Rightarrow> number \<Rightarrow> jsstring" where
  "toFixed fractionDigits x =
     (let n = nat \<lfloor>\<bar>x\<bar> * 10 ^ fractionDigits + 1 / 2\<rfloor>;
          whole = show_nat (n div 10 ^ fractionDigits);
          frac = show_nat (n mod 10 ^ fractionDigits);
          padded = replicate (fractionDigits - length frac) (of_nat 48) @ frac
      in (if x < 0 then js ''-'' else []) @ whole
           @ (if fractionDigits = 0 then [] else js ''.'' @ padded))"

text \<open>\<open>formatNumber\<close> of distribution/capabilities.ts.\<close>

definition formatNumber :: "number \<Rightarrow> jsstring" where
  "formatNumber num =
     (if num \<ge> 10 ^ 9 then toFixed 2 (num / 10 ^ 9) @ js ''B''
      else if num \<ge> 10 ^ 6 then toFixed 2 (num / 10 ^ 6) @ js ''M''
      else if num \<ge> 10 ^ 3 then toFixed 2 (num / 10 ^ 3) @ js ''K''
      else toFixed 2 num)"

section \<open>The data payload\<close>

text \<open>
  The payload \<open>data\<close> has the TypeScript type \<open>any\<close>. The model is the view of it that
  the content formatter reads: every property it probes, absent (\<open>None\<close>) or present
  with the type \<open>processTokenData\<close> and the provider adapters give it. An array whose
  entries the formatter never reads is given by its length (\<open>chain_ids\<close> is the array
  \<open>data.chains\<close>). \<open>price_usd\<close> stands for \<open>data.price?.usd\<close>, and likewise for the
  other properties of \<open>price\<close>, \<open>volume\<close>, \<open>liquidity\<close> and \<open>buyVsSell24h\<close>. A
  payload in which a probed property has another type is outside the model.
\<close>

record token_info =
  token_symbol :: "jsstring option"
  token_name :: "jsstring option"
  token_chain :: "jsstring option"

record payload =
  token :: "token_info option"
  chain :: "jsstring option"
  category :: "jsstring option"
  price_usd :: "number option"
  price_change24h :: "number option"
  volume_usd24h :: "number option"
  liquidity_usd :: "number option"
  marketCap :: "number option"
  tvl :: "number option"
  transactions24h :: "int option"
  buys :: "int option"
  sells :: "int option"
  exchanges :: "nat option"
  chain_ids :: "nat option"
  topTokens :: "nat option"
  topProtocols :: "nat option"
  chainsTvl :: "nat option"
  historicalTvl :: "nat option"

text \<open>
  Truthiness and the idiom \<open>v || d\<close>: an absent property, the empty string and the
  number zero are falsy; an array is truthy, also when it is empty.
\<close>

definition truthy_str :: "jsstring option \<Rightarrow> bool" where
  "truthy_str v \<longleftrightarrow> (case v of None \<Rightarrow> False | Some s \<Rightarrow> s \<noteq> [])"

definition str_or :: "jsstring option \<Rightarrow> jsstring \<Rightarrow> jsstring" where
  "str_or v d = (case v of None \<Rightarrow> d | Some s \<Rightarrow> if s = [] then d else s)"

definition num_or0 :: "number option \<Rightarrow> number" where
  "num_or0 v = (case v of None \<Rightarrow> 0 | Some x \<Rightarrow> x)"

definition int_or0 :: "int option \<Rightarrow> int" where
  "int_or0 v = (case v of None \<Rightarrow> 0 | Some k \<Rightarrow> k)"

definition length_or0 :: "nat option \<Rightarrow> nat" where
  "length_or0 v = (case v of None \<Rightarrow> 0 | Some n \<Rightarrow> n)"

definition present :: "'a option \<Rightarrow> bool" where
  "present v \<longleftrightarrow> v \<noteq> None"

section \<open>Tags (extractDefaultTags)\<close>

text \<open>\<open>data.chain || data.token.chain\<close>, read when the guard before it has passed.\<close>

definition chain_of :: "payload \<Rightarrow> jsstring" where
  "chain_of data =
     (if truthy_str (chain data) then str_or (chain data) []
      else (case token data of None \<Rightarrow> [] | Some t \<Rightarrow> str_or (token_chain t) []))"

definition chain_tags :: "jsstring \<Rightarrow> jsstring list" where
  "chain_tags c =
     (if toLowerCase c = js ''ethereum'' then [js ''ETH'']
      else if toLowerCase c = js ''binance-smart-chain'' \<or> toLowerCase c = js ''bsc''
        then [js ''BSC'', js ''BNB'']
      else if toLowerCase c = js ''solana'' then [js ''SOL'']
      else [])"

text \<open>
  The array \<open>tags\<close> of \<open>extractDefaultTags\<close> after its last \<open>push\<close>, before duplicates
  are removed: each \<open>if\<close> of the source appends its tags or nothing.
\<close>

definition pushed_tags :: "payload \<Rightarrow> jsstring list" where
  "pushed_tags data =
     (let tags = base_tags;
          tags = tags @ (case token data of
                           None \<Rightarrow> []
                         | Some t \<Rightarrow> if truthy_str (token_symbol t) then [str_or (token_symbol t) []] else []);
          tags = tags @ (case token data of
                           None \<Rightarrow> []
                         | Some t \<Rightarrow> if truthy_str (token_name t)
                                     then [strip_whitespace (str_or (token_name t) [])] else []);
          tags = tags @ (if truthy_str (chain data)
                            \<or> (case token data of None \<Rightarrow> False | Some t \<Rightarrow> truthy_str (token_chain t))
                         then chain_of data # chain_tags (chain_of data) else []);
          tags = tags @ (if truthy_str (category data)
                         then [strip_whitespace (str_or (category data) [])] else []);
          tags = tags @ (if present (topTokens data) then [js ''TokenAnalysis''] else []);
          tags = tags @ (if num_or0 (tvl data) \<noteq> 0 \<or> present (historicalTvl data)
                         then [js ''TVL'', js ''TotalValueLocked''] else [])
      in tags)"

text \<open>
  \<open>[...new Set(tags)]\<close>: the constructor adds the entries one by one, and an entry that
  is in the set already is not added again; the spread lists the set in insertion order.
\<close>

definition set_add :: "'a list \<Rightarrow> 'a \<Rightarrow> 'a list" where
  "set_add s x = (if x \<in> set s then s else s @ [x])"

definition new_Set :: "'a list \<Rightarrow> 'a list" where
  "new_Set xs = foldl set_add [] xs"

definition extractDefaultTags :: "payload \<Rightarrow> jsstring list" where
  "extractDefaultTags data = take 10 (new_Set (pushed_tags data))"

text \<open>
  The words of the specification for C7, to compare \<open>extractDefaultTags\<close> with: of a list,
  keep each entry at the position where it occurs for the first time.
\<close>

definition first_occurrences :: "'a list \<Rightarrow> 'a list" where
  "first_occurrences xs =
     map (\<lambda>i. xs ! i) (filter (\<lambda>i. xs ! i \<notin> set (take i xs)) [0..<length xs])"

section \<open>Content (generateSocialContent)\<close>

datatype contentType = Short | Detailed | Thread

record content =
  message :: jsstring
  tags :: "jsstring list"
  thread :: "jsstring list option"

text \<open>The emoji of the source, as UTF-16 surrogate pairs, and the line feed.\<close>

definition emoji_chart :: jsstring where
  "emoji_chart = [0xD83D, 0xDCCA]"

definition emoji_thread :: jsstring where
  "emoji_thread = [0xD83E, 0xDDF5]"

definition emoji_down :: jsstring where
  "emoji_down = [0xD83D, 0xDC47]"

definition nl :: jsstring where
  "nl = [0x0A]"

text \<open>\<open>${priceChange >= 0 ? '+' : ''}${priceChange.toFixed(2)}\<close>.\<close>

definition signed_change :: "number \<Rightarrow> jsstring" where
  "signed_change priceChange = (if priceChange \<ge> 0 then js ''+'' else []) @ toFixed 2 priceChange"

text \<open>The branch of \<open>generateSocialContent\<close> for a payload with a \<open>token\<close>.\<close>

definition token_content :: "payload \<Rightarrow> token_info \<Rightarrow> contentType \<Rightarrow> jsstring list \<Rightarrow> content" where
  "token_content data t ct tgs =
     (let tokenSymbol = str_or (token_symbol t) (js ''Token'');
          priceUsd = num_or0 (price_usd data);
          priceChange = num_or0 (price_change24h data);
          volume24h = num_or0 (volume_usd24h data);
          trades = js '' ('' @ show_int (int_or0 (buys data)) @ js '' buys, ''
                     @ show_int (int_or0 (sells data)) @ js '' sells)''
      in case ct of
           Short \<Rightarrow>
             \<lparr>message = tokenSymbol @ js '' is trading at $'' @ toFixed 6 priceUsd @ js '' (''
                  @ signed_change priceChange @ js ''% 24h) with $'' @ formatNumber volume24h
                  @ js '' 24h volume.'',
              tags = tgs, thread = None\<rparr>
         | Detailed \<Rightarrow>
             \<lparr>message = tokenSymbol @ js '' Market Update '' @ emoji_chart @ nl @ nl
                  @ js ''Current Price: $'' @ toFixed 6 priceUsd @ nl
                  @ js ''24h Change: '' @ signed_change priceChange @ js ''%'' @ nl
                  @ js ''24h Volume: $'' @ formatNumber volume24h @ nl @ nl
                  @ js ''Liquidity: $'' @ formatNumber (num_or0 (liquidity_usd data)) @ nl
                  @ js ''Market Cap: $'' @ formatNumber (num_or0 (marketCap data)) @ nl @ nl
                  @ js ''Trades in last 24h: ''
                  @ formatNumber (of_int (int_or0 (transactions24h data))) @ trades,
              tags = tgs, thread = None\<rparr>
         | Thread \<Rightarrow>
             \<lparr>message = tokenSymbol @ js '' is currently trading at $'' @ toFixed 6 priceUsd
                  @ js '' with a 24h change of '' @ signed_change priceChange
                  @ js ''%. Let's dive into the key metrics '' @ emoji_thread @ emoji_down,
              tags = tgs,
              thread = Some
                [tokenSymbol @ js '' is trading at $'' @ toFixed 6 priceUsd @ js '' (''
                   @ signed_change priceChange @ js ''% 24h)'',
                 js ''Trading volume in the last 24 hours: $'' @ formatNumber volume24h,
                 js ''Market cap: $'' @ formatNumber (num_or0 (marketCap data)) @ js '' with $''
                   @ formatNumber (num_or0 (liquidity_usd data)) @ js '' in liquidity'',
                 show_int (int_or0 (transactions24h data)) @ js '' trades in last 24h'' @ trades,
                 tokenSymbol @ js '' is available on '' @ show_nat (length_or0 (exchanges data))
                   @ js '' exchanges across '' @ show_nat (length_or0 (chain_ids data))
                   @ js '' chains.'']\<rparr>)"

text \<open>The branch for a payload with \<open>topProtocols\<close> or \<open>chainsTvl\<close>.\<close>

definition market_content :: "contentType \<Rightarrow> jsstring list \<Rightarrow> content" where
  "market_content ct tgs =
     (case ct of
        Short \<Rightarrow>
          \<lparr>message = js ''Check out our latest DeFi market visualization with key insights on tokens, protocols, and trends.'',
           tags = tgs, thread = None\<rparr>
      | Detailed \<Rightarrow>
          \<lparr>message = js ''DeFi Market Insights '' @ emoji_chart @ nl @ nl
               @ js ''Our latest data visualization provides an in-depth look at the current state of decentralized finance.''
               @ nl @ nl
               @ js ''The visualization highlights key metrics, trending tokens, and protocol performance to help you make informed decisions.''
               @ nl @ nl
               @ js ''Swipe to see the full analysis and discover the latest trends in the DeFi ecosystem.'',
           tags = tgs, thread = None\<rparr>
      | Thread \<Rightarrow>
          \<lparr>message = js ''We've just published our latest DeFi market visualization! Let's explore the key insights ''
               @ emoji_thread @ emoji_down,
           tags = tgs,
           thread = Some
             [js ''Our latest DeFi visualization provides a comprehensive overview of the market'',
              js ''Key metrics covered include token prices, trading volume, TVL, and distribution across protocols'',
              js ''The data reveals important trends in user activity and capital flows in the DeFi ecosystem'',
              js ''This analysis can help you make better-informed decisions about your DeFi investments and activities'',
              js ''Follow us for regular updates and more detailed breakdowns of the DeFi landscape!'']\<rparr>)"

text \<open>The branch for any other payload.\<close>

definition default_content :: "contentType \<Rightarrow> jsstring list \<Rightarrow> content" where
  "default_content ct tgs =
     (case ct of
        Short \<Rightarrow>
          \<lparr>message = js ''Check out our latest DeFi data visualization!'', tags = tgs, thread = None\<rparr>
      | Detailed \<Rightarrow>
          \<lparr>message = js ''Our latest DeFi data visualization provides insights on market trends, token performance, and protocol growth. Swipe to explore the data and discover the latest developments in the decentralized finance ecosystem.'',
           tags = tgs, thread = None\<rparr>
      | Thread \<Rightarrow>
          \<lparr>message = js ''We've published a new DeFi visualization! Let's explore what the data shows ''
               @ emoji_thread @ emoji_down,
           tags = tgs,
           thread = Some
             [js ''Our latest DeFi data visualization is now available!'',
              js ''The visualization covers key metrics across the decentralized finance ecosystem'',
              js ''This data helps highlight emerging trends and opportunities in the market'',
              js ''Follow us for more insights and regular updates on the DeFi landscape!'']\<rparr>)"

text \<open>
  \<open>generateSocialContent(data, platform, contentType, action)\<close>. The platform and the
  action are not read by the source. Each \<open>thread\<close> case of the source returns from
  inside its branch; the other two content types reach the final \<open>return\<close>, whose
  \<open>thread\<close> is \<open>undefined\<close> for them.
\<close>

definition generateSocialContent :: "payload \<Rightarrow> platform \<Rightarrow> contentType \<Rightarrow> content" where
  "generateSocialContent data p ct =
     (let tgs = extractDefaultTags data
      in case token data of
           Some t \<Rightarrow> token_content data t ct tgs
         | None \<Rightarrow>
             if present (topProtocols data) \<or> present (chainsTvl data) then market_content ct tgs
             else default_content ct tgs)"

text \<open>The words of the specification for C3: the message is the first entry of the thread.\<close>

definition message_is_first_thread_entry :: "content \<Rightarrow> bool" where
  "message_is_first_thread_entry c \<longleftrightarrow>
     (case thread c of None \<Rightarrow> False | Some [] \<Rightarrow> False | Some (t # ts) \<Rightarrow> message c = t)"

text \<open>The payload with no property, and the token snapshot of the scenario of C6.\<close>

definition empty_payload :: payload where
  "empty_payload = \<lparr>token = None, chain = None, category = None, price_usd = None,
     price_change24h = None, volume_usd24h = None, liquidity_usd = None, marketCap = None,
     tvl = None, transactions24h = None, buys = None, sells = None, exchanges = None,
     chain_ids = None, topTokens = None, topProtocols = None, chainsTvl = None,
     historicalTvl = None\<rparr>"

definition eth_snapshot :: payload where
  "eth_snapshot = empty_payload
     \<lparr>token := Some \<lparr>token_symbol = Some (js ''ETH''), token_name = None, token_chain = None\<rparr>,
      price_usd := Some (2500123456 / 1000000),
      price_change24h := Some (- 15 / 10),
      volume_usd24h := Some 1200000000\<rparr>"

section \<open>Thrown values\<close>

text \<open>
  A thrown value is kept by the text that the handlers of the source read from it:
  \<open>error instanceof Error ? error.message : String(error)\<close>.
\<close>

datatype jserror = JsError jsstring

fun error_message :: "jserror \<Rightarrow> jsstring" where
  "error_message (JsError m) = m"

section \<open>The posting schedule and the campaign (createSocialCampaign)\<close>

text \<open>
  \<open>generatePostSchedule(postCount)\<close>. The clock and the random generator are inputs of
  the model: \<open>now\<close> is the instant of \<open>new Date()\<close> in milliseconds since the epoch, and
  \<open>random i\<close> is what the call of \<open>Math.random()\<close> in round \<open>i\<close> of the loop returns.
  \<open>setHours(getHours() + h)\<close> moves the instant by \<open>h\<close> hours (a change of the local
  time zone's offset in between is not modelled), and \<open>scheduledTime\<close> is the instant
  that \<open>toISOString()\<close> writes.
\<close>

record scheduled_post =
  post_platform :: jsstring
  scheduledTime :: int

definition schedule_platforms :: "jsstring list" where
  "schedule_platforms = [js ''twitter'', js ''linkedin'', js ''telegram'']"

definition schedule_entry :: "int \<Rightarrow> (nat \<Rightarrow> number) \<Rightarrow> nat \<Rightarrow> scheduled_post" where
  "schedule_entry now random i =
     \<lparr>post_platform = schedule_platforms ! (i mod length schedule_platforms),
      scheduledTime = now + (int i * 4 + \<lfloor>random i * 2\<rfloor>) * 3600000\<rparr>"

function schedule_loop ::
  "int \<Rightarrow> (nat \<Rightarrow> number) \<Rightarrow> number \<Rightarrow> nat \<Rightarrow> scheduled_post list \<Rightarrow> scheduled_post list" where
  "schedule_loop now random postCount i schedule =
     (if of_nat i < postCount
      then schedule_loop now random postCount (Suc i) (schedule @ [schedule_entry now random i])
      else schedule)"
  by pat_completeness auto
termination
proof (relation "measure (\<lambda>(now, random, postCount, i, schedule). nat \<lceil>postCount\<rceil> - i)")
  show "wf (measure (\<lambda>(now, random, postCount, i, schedule). nat \<lceil>postCount\<rceil> - i))"
    by simp
next
  fix now :: int and random :: "nat \<Rightarrow> number" and postCount :: number and i :: nat
    and schedule :: "scheduled_post list"
  assume "of_nat i < postCount"
  then have "int i < \<lceil>postCount\<rceil>"
    by (simp add: less_ceiling_iff)
  then show "((now, random, postCount, Suc i, schedule @ [schedule_entry now random i]),
      (now, random, postCount, i, schedule))
      \<in> measure (\<lambda>(now, random, postCount, i, schedule). nat \<lceil>postCount\<rceil> - i)"
    by simp
qed

declare schedule_loop.simps [simp del]

definition generatePostSchedule :: "int \<Rightarrow> (nat \<Rightarrow> number) \<Rightarrow> number \<Rightarrow> scheduled_post list" where
  "generatePostSchedule now random postCount = schedule_loop now random postCount 0 []"

text \<open>
  The campaign. The first part of \<open>createSocialCampaign\<close> fetches data for the topic
  from the providers, looks the templates of \<open>visualizationTypes\<close> up, renders them and
  writes the files. It is the parameter \<open>gather\<close> of the model: from the topic and the
  visualization types it gives the array \<open>visualizations\<close>, or a thrown value. The
  model has what follows: the content for each platform and each visualization, and the
  campaign object with its schedule. A thrown value is wrapped by the handler of the
  capability.
\<close>

record visualization =
  viz_type :: jsstring
  viz_title :: jsstring
  htmlPath :: jsstring
  pngPath :: jsstring
  viz_data :: payload

record post_content =
  post_visualization :: jsstring
  post_imagePath :: jsstring
  post_message :: jsstring
  post_tags :: "jsstring list"
  post_thread :: "jsstring list option"

record campaign =
  topic :: jsstring
  campaign_visualizations :: "(jsstring \<times> jsstring \<times> jsstring \<times> jsstring) list"
  platformContent :: "platform \<rightharpoonup> post_content list"
  suggestedSchedule :: "scheduled_post list"

definition content_for :: "bool \<Rightarrow> platform \<Rightarrow> visualization \<Rightarrow> post_content" where
  "content_for includeThread p viz =
     (let ct = (if includeThread \<and> p = Twitter then Thread else Detailed);
          c = generateSocialContent (viz_data viz) p ct
      in \<lparr>post_visualization = viz_title viz, post_imagePath = pngPath viz,
          post_message = message c, post_tags = tags c, post_thread = thread c\<rparr>)"

fun platformContentLoop ::
  "bool \<Rightarrow> visualization list \<Rightarrow> platform list \<Rightarrow> (platform \<rightharpoonup> post_content list)
     \<Rightarrow> (platform \<rightharpoonup> post_content list)" where
  "platformContentLoop includeThread vizs [] pc = pc"
| "platformContentLoop includeThread vizs (p # ps) pc =
     platformContentLoop includeThread vizs ps (pc(p \<mapsto> map (content_for includeThread p) vizs))"

definition createSocialCampaign ::
  "(jsstring \<Rightarrow> jsstring list \<Rightarrow> jserror + visualization list) \<Rightarrow> int \<Rightarrow> (nat \<Rightarrow> number)
     \<Rightarrow> jsstring \<Rightarrow> platform list \<Rightarrow> jsstring list \<Rightarrow> number \<Rightarrow> bool \<Rightarrow> jserror + campaign" where
  "createSocialCampaign gather now random tp platforms visualizationTypes postCount includeThread =
     (case gather tp visualizationTypes of
        Inl e \<Rightarrow> Inl (JsError (js ''Failed to create social campaign: '' @ error_message e))
      | Inr vizs \<Rightarrow>
          Inr \<lparr>topic = tp,
               campaign_visualizations =
                 map (\<lambda>v. (viz_type v, viz_title v, htmlPath v, pngPath v)) vizs,
               platformContent = platformContentLoop includeThread vizs platforms Map.empty,
               suggestedSchedule = generatePostSchedule now random postCount\<rparr>)"

text \<open>
  The scenario of C5 at a fixed clock and a random generator that always returns 0, and
  the words of the claim: every entry of the schedule is assigned to the given platform.
\<close>

definition no_jitter :: "nat \<Rightarrow> number" where
  "no_jitter i = 0"

definition tvl_visualization :: visualization where
  "tvl_visualization = \<lparr>viz_type = js ''tvl-chart'', viz_title = js ''Protocol TVL Chart'',
     htmlPath = js ''/output/tvl-chart_0.html'', pngPath = js ''/output/tvl-chart_0.png'',
     viz_data = empty_payload\<rparr>"

definition tvl_only :: "jsstring \<Rightarrow> jsstring list \<Rightarrow> jserror + visualization list" where
  "tvl_only tp visualizationTypes = Inr [tvl_visualization]"

definition scenario_campaign :: "jserror + campaign" where
  "scenario_campaign =
     createSocialCampaign tvl_only 0 no_jitter (js ''Ethereum TVL trends'') [Twitter]
       [js ''tvl-chart''] 3 False"

definition schedule_all_on :: "jsstring \<Rightarrow> jserror + campaign \<Rightarrow> bool" where
  "schedule_all_on p r \<longleftrightarrow>
     (case r of Inl e \<Rightarrow> False
      | Inr c \<Rightarrow> list_all (\<lambda>e. post_platform e = p) (suggestedSchedule c))"

section \<open>Paths and the SVG pattern (distribution/file-distributor.ts)\<close>

definition slash :: code_unit where
  "slash = 0x2F"

definition dot :: code_unit where
  "dot = 0x2E"

text \<open>
  \<open>path.extname\<close> of Node, in its POSIX form: the extension of the last segment of the
  path (trailing slashes aside), from its last dot on; empty when the segment has no
  dot, when its only dot is its first character, and for the segment \<open>..\<close>.
\<close>

definition last_segment :: "jsstring \<Rightarrow> jsstring" where
  "last_segment p = rev (takeWhile (\<lambda>c. c \<noteq> slash) (dropWhile (\<lambda>c. c = slash) (rev p)))"

definition extname :: "jsstring \<Rightarrow> jsstring" where
  "extname p =
     (let part = last_segment p;
          after = rev (takeWhile (\<lambda>c. c \<noteq> dot) (rev part))
      in if dot \<in> set part \<and> length after + 1 \<noteq> length part \<and> part \<noteq> js ''..''
         then dot # after else [])"

text \<open>
  \<open>s.replace(/\.svg$/, r)\<close> and the like: a pattern that is a literal text anchored at
  the end of the string.
\<close>

definition replace_suffix :: "jsstring \<Rightarrow> jsstring \<Rightarrow> jsstring \<Rightarrow> jsstring" where
  "replace_suffix suf r s = (if suffix suf s then take (length s - length suf) s @ r else s)"

text \<open>
  \<open>html.match(/<svg[^>]*>[\s\S]*?<\/svg>/i)\<close>, the matched text of the first match.
  Without the \<open>u\<close> flag, \<open>i\<close> folds the case of the ASCII letters of the pattern only.
  From a start \<open><svg\<close> the class \<open>[^>]*\<close> runs to the first \<open>>\<close>, and the lazy
  \<open>[\s\S]*?\<close> to the first \<open></svg>\<close> after it.
\<close>

definition starts_with_ci :: "jsstring \<Rightarrow> jsstring \<Rightarrow> bool" where
  "starts_with_ci pat s \<longleftrightarrow> toLowerCase (take (length pat) s) = pat"

fun svg_end :: "jsstring \<Rightarrow> jsstring option" where
  "svg_end [] = None"
| "svg_end (c # cs) =
     (if starts_with_ci (js ''</svg>'') (c # cs) then Some (take 6 (c # cs))
      else map_option (\<lambda>m. c # m) (svg_end cs))"

definition svg_at :: "jsstring \<Rightarrow> jsstring option" where
  "svg_at s =
     (if starts_with_ci (js ''<svg'') s then
        (let rest = drop 4 s;
             attrs = takeWhile (\<lambda>c. c \<noteq> 0x3E) rest
         in case drop (length attrs) rest of
              [] \<Rightarrow> None
            | gt # body \<Rightarrow> map_option (\<lambda>m. take 4 s @ attrs @ gt # m) (svg_end body))
      else None)"

fun svg_match :: "jsstring \<Rightarrow> jsstring option" where
  "svg_match [] = None"
| "svg_match (c # cs) = (case svg_at (c # cs) of Some m \<Rightarrow> Some m | None \<Rightarrow> svg_match cs)"

section \<open>The runtime: file system, browser and host\<close>

text \<open>
  What the code calls outside itself is a parameter of the model. The state of the
  outside world has an arbitrary type \<open>'x\<close>; each call of the file system, of Puppeteer
  or of the host agent is a function that takes this state and returns a value or a
  thrown value, and the next state. Nothing is assumed about these functions: any call
  may throw, at any time.

  The one thing the model itself keeps track of is which browsers are open. A browser is
  open from the moment \<open>puppeteer.launch\<close> has returned it until \<open>close()\<close> has been
  called on it; \<open>close()\<close> may still raise after that. A page is addressed by the
  handle of its browser.
\<close>

record 'x world =
  open_browsers :: "nat set"
  next_browser :: nat
  ext :: 'x

datatype page_script = ChartContainerSize | SvgSize

datatype agent_ref = ActionAgent | DefaultAgent

record upload_response =
  upload_url :: "jsstring option"

datatype request_body =
    Tweet jsstring jsstring jsstring
  | UgcPost jsstring jsstring
  | SendPhoto jsstring jsstring jsstring

record integration_request =
  workspaceId :: jsstring
  integrationId :: jsstring
  endpoint :: jsstring
  http_method :: jsstring
  body :: request_body

record response_data =
  data_id :: "jsstring option"
  data_message_id :: "jsstring option"

record response =
  resp_data :: "response_data option"

record 'x runtime =
  cwd :: jsstring
  path_resolve :: "jsstring \<Rightarrow> jsstring \<Rightarrow> jsstring"
  regexp_replace :: "jsstring \<Rightarrow> jsstring \<Rightarrow> jsstring \<Rightarrow> jserror + jsstring"
  toBase64 :: "jsstring \<Rightarrow> jsstring"
  existsSync :: "jsstring \<Rightarrow> 'x \<Rightarrow> bool"
  mkdirSync :: "jsstring \<Rightarrow> 'x \<Rightarrow> (jserror + unit) \<times> 'x"
  readFileSync :: "jsstring \<Rightarrow> 'x \<Rightarrow> (jserror + jsstring) \<times> 'x"
  writeFileSync :: "jsstring \<Rightarrow> jsstring \<Rightarrow> 'x \<Rightarrow> (jserror + unit) \<times> 'x"
  unlinkSync :: "jsstring \<Rightarrow> 'x \<Rightarrow> (jserror + unit) \<times> 'x"
  puppeteer_launch :: "'x \<Rightarrow> (jserror + unit) \<times> 'x"
  browser_newPage :: "nat \<Rightarrow> 'x \<Rightarrow> (jserror + unit) \<times> 'x"
  page_goto :: "nat \<Rightarrow> jsstring \<Rightarrow> 'x \<Rightarrow> (jserror + unit) \<times> 'x"
  page_evaluate :: "nat \<Rightarrow> page_script \<Rightarrow> 'x \<Rightarrow> (jserror + number \<times> number) \<times> 'x"
  page_setViewport :: "nat \<Rightarrow> int \<Rightarrow> int \<Rightarrow> 'x \<Rightarrow> (jserror + unit) \<times> 'x"
  page_screenshot :: "nat \<Rightarrow> jsstring \<Rightarrow> 'x \<Rightarrow> (jserror + unit) \<times> 'x"
  browser_close :: "nat \<Rightarrow> 'x \<Rightarrow> (jserror + unit) \<times> 'x"
  import_index :: "'x \<Rightarrow> (jserror + bool) \<times> 'x"
  uploadFile :: "agent_ref \<Rightarrow> jsstring \<Rightarrow> jsstring \<Rightarrow> jsstring
                   \<Rightarrow> 'x \<Rightarrow> (jserror + upload_response option) \<times> 'x"
  callIntegration :: "integration_request \<Rightarrow> 'x \<Rightarrow> (jserror + response option) \<times> 'x"

text \<open>
  A computation returns a value or throws, and changes the world. \<open>seq\<close> is \<open>;\<close> (with
  \<open>await\<close>), \<open>try_catch\<close> and \<open>try_finally\<close> are the statements of these names: the
  \<open>finally\<close> block runs on every way out of the body, and what it throws replaces the
  outcome of the body.
\<close>

type_synonym ('x, 'a) comp = "'x world \<Rightarrow> (jserror + 'a) \<times> 'x world"

definition ret :: "'a \<Rightarrow> ('x, 'a) comp" where
  "ret v = (\<lambda>s. (Inr v, s))"

definition throw :: "jserror \<Rightarrow> ('x, 'a) comp" where
  "throw e = (\<lambda>s. (Inl e, s))"

definition seq :: "('x, 'a) comp \<Rightarrow> ('a \<Rightarrow> ('x, 'b) comp) \<Rightarrow> ('x, 'b) comp" where
  "seq m f = (\<lambda>s. case m s of (Inl e, s') \<Rightarrow> (Inl e, s') | (Inr v, s') \<Rightarrow> f v s')"

definition try_catch :: "('x, 'a) comp \<Rightarrow> (jserror \<Rightarrow> ('x, 'a) comp) \<Rightarrow> ('x, 'a) comp" where
  "try_catch m h = (\<lambda>s. case m s of (Inl e, s') \<Rightarrow> h e s' | (Inr v, s') \<Rightarrow> (Inr v, s'))"

definition try_finally :: "('x, 'a) comp \<Rightarrow> ('x, unit) comp \<Rightarrow> ('x, 'a) comp" where
  "try_finally m fin =
     (\<lambda>s. case m s of (r, s') \<Rightarrow>
        (case fin s' of (Inl e, s'') \<Rightarrow> (Inl e, s'') | (Inr u, s'') \<Rightarrow> (r, s'')))"

definition call :: "('x \<Rightarrow> (jserror + 'a) \<times> 'x) \<Rightarrow> ('x, 'a) comp" where
  "call f = (\<lambda>s. case f (ext s) of (r, x) \<Rightarrow> (r, s\<lparr>ext := x\<rparr>))"

definition lift_result :: "jserror + 'a \<Rightarrow> ('x, 'a) comp" where
  "lift_result r = (\<lambda>s. (r, s))"

definition launch :: "'x runtime \<Rightarrow> ('x, nat) comp" where
  "launch rt =
     (\<lambda>s. case puppeteer_launch rt (ext s) of
        (Inl e, x) \<Rightarrow> (Inl e, s\<lparr>ext := x\<rparr>)
      | (Inr u, x) \<Rightarrow>
          (Inr (next_browser s),
           s\<lparr>open_browsers := insert (next_browser s) (open_browsers s),
             next_browser := Suc (next_browser s), ext := x\<rparr>))"

definition close :: "'x runtime \<Rightarrow> nat \<Rightarrow> ('x, unit) comp" where
  "close rt b =
     (\<lambda>s. case browser_close rt b (ext s) of
        (r, x) \<Rightarrow> (r, s\<lparr>open_browsers := open_browsers s - {b}, ext := x\<rparr>))"

section \<open>Saving and converting a visualization (distribution/file-distributor.ts)\<close>

datatype format = HTML | PNG | SVG

fun format_str :: "format \<Rightarrow> jsstring" where
  "format_str HTML = js ''html''"
| "format_str PNG = js ''png''"
| "format_str SVG = js ''svg''"

text \<open>\<open>Math.ceil(v) || fallback\<close>.\<close>

definition ceil_or :: "number \<Rightarrow> int \<Rightarrow> int" where
  "ceil_or v fallback = (if \<lceil>v\<rceil> = 0 then fallback else \<lceil>v\<rceil>)"

text \<open>
  The body of the three \<open>try\<close> blocks that follow a launch: open a page, load the file,
  measure the content, set the viewport, take the screenshot.
\<close>

definition screenshot_steps ::
  "'x runtime \<Rightarrow> nat \<Rightarrow> jsstring \<Rightarrow> page_script \<Rightarrow> int \<Rightarrow> int \<Rightarrow> jsstring \<Rightarrow> ('x, unit) comp" where
  "screenshot_steps rt browser htmlFile script w h outputPath =
     seq (call (browser_newPage rt browser)) (\<lambda>page.
     seq (call (page_goto rt browser (js ''file://'' @ htmlFile))) (\<lambda>u.
     seq (call (page_evaluate rt browser script)) (\<lambda>contentSize.
     seq (call (page_setViewport rt browser (ceil_or (fst contentSize) w)
                  (ceil_or (snd contentSize) h))) (\<lambda>u.
     call (page_screenshot rt browser outputPath)))))"

record action =
  workspace :: "jsstring option"
  has_agent :: bool
  me :: bool

record save_result =
  save_success :: bool
  filePath :: jsstring
  fileUrl :: "jsstring option"

text \<open>
  The upload of \<open>saveVisualization\<close>: its own \<open>try\<close>, whose handler logs and lets the
  function go on to return the local file.
\<close>

definition agentToUse :: "'x runtime \<Rightarrow> action \<Rightarrow> ('x, agent_ref option) comp" where
  "agentToUse rt a =
     (if has_agent a then ret (Some ActionAgent)
      else if me a then
        seq (call (import_index rt)) (\<lambda>d. ret (if d then Some DefaultAgent else None))
      else ret None)"

definition upload_or_local ::
  "'x runtime \<Rightarrow> action option \<Rightarrow> jsstring \<Rightarrow> jsstring \<Rightarrow> ('x, save_result) comp" where
  "upload_or_local rt act fullFilename outputPath =
     (let local = \<lparr>save_success = True, filePath = outputPath, fileUrl = None\<rparr>
      in case act of
           None \<Rightarrow> ret local
         | Some a \<Rightarrow>
             (case workspace a of
                None \<Rightarrow> ret local
              | Some wid \<Rightarrow>
                  try_catch
                    (seq (call (readFileSync rt outputPath)) (\<lambda>fileContent.
                     seq (agentToUse rt a) (\<lambda>ag.
                       case ag of
                         None \<Rightarrow> throw (JsError (js ''No agent available for file upload''))
                       | Some agent \<Rightarrow>
                           seq (call (uploadFile rt agent wid fullFilename fileContent))
                             (\<lambda>uploadResponse.
                                case uploadResponse of
                                  None \<Rightarrow>
                                    throw (JsError (js ''Cannot read properties of undefined (reading 'url')''))
                                | Some r \<Rightarrow>
                                    ret \<lparr>save_success = True, filePath = outputPath,
                                         fileUrl = upload_url r\<rparr>))))
                    (\<lambda>e. ret local)))"

definition saveVisualization ::
  "'x runtime \<Rightarrow> jsstring \<Rightarrow> jsstring \<Rightarrow> format \<Rightarrow> action option \<Rightarrow> ('x, save_result) comp" where
  "saveVisualization rt html filename fmt act =
     (let outputDir = path_resolve rt (cwd rt) (js ''output'') in
      seq (\<lambda>s. if \<not> existsSync rt outputDir (ext s) then call (mkdirSync rt outputDir) s
                else ret () s) (\<lambda>u.
        let extension = toLowerCase (format_str fmt);
            fullFilename = filename @ js ''.'' @ extension;
            outputPath = path_resolve rt outputDir fullFilename
        in try_catch
             (seq (case fmt of
                     HTML \<Rightarrow> call (writeFileSync rt outputPath html)
                   | SVG \<Rightarrow>
                       (case svg_match html of
                          None \<Rightarrow> throw (JsError (js ''No SVG content found in the HTML''))
                        | Some svgMatch \<Rightarrow> call (writeFileSync rt outputPath svgMatch))
                   | PNG \<Rightarrow>
                       (let htmlPath = path_resolve rt outputDir (filename @ js ''.html'') in
                        seq (call (writeFileSync rt htmlPath html)) (\<lambda>u.
                        seq (launch rt) (\<lambda>browser.
                          try_finally
                            (screenshot_steps rt browser htmlPath ChartContainerSize 1920 1080
                               outputPath)
                            (close rt browser)))))
                (\<lambda>u. upload_or_local rt act fullFilename outputPath))
             (\<lambda>e. throw (JsError (js ''Failed to save as '' @ format_str fmt @ js '': ''
                                    @ error_message e)))))"

text \<open>
  The output path of \<open>convertVisualization\<close>,
  \<open>inputPath.replace(new RegExp(p), `.${outputFormat}`)\<close> where \<open>p\<close> is a backslash, a
  dot, \<open>inputExt\<close> and a dollar sign. When no code
  unit of the extension is a syntax character of regular expressions, the pattern is the
  literal text of a dot and the extension at the end of the path. For any other extension
  the pattern is whatever the regular expression engine makes of it, or a syntax error:
  that is left to the runtime.
\<close>

definition regexp_plain :: "jsstring \<Rightarrow> bool" where
  "regexp_plain e \<longleftrightarrow> list_all (\<lambda>c. c \<notin> set (0x5C # js ''^$.*+?()[]{}|'')) e"

definition output_path :: "'x runtime \<Rightarrow> jsstring \<Rightarrow> jsstring \<Rightarrow> format \<Rightarrow> jserror + jsstring" where
  "output_path rt inputPath inputExt outputFormat =
     (if regexp_plain inputExt
      then Inr (replace_suffix (js ''.'' @ inputExt) (js ''.'' @ format_str outputFormat) inputPath)
      else regexp_replace rt (0x5C # js ''.'' @ inputExt @ js ''$'') inputPath
             (js ''.'' @ format_str outputFormat))"

text \<open>The HTML page that wraps an SVG before it is rendered.\<close>

definition svg_wrapper :: "jsstring \<Rightarrow> jsstring" where
  "svg_wrapper svg =
     nl @ js ''        <!DOCTYPE html>'' @ nl
     @ js ''        <html>'' @ nl
     @ js ''        <head>'' @ nl
     @ js ''          <meta charset='' @ [0x22] @ js ''UTF-8'' @ [0x22] @ js ''>'' @ nl
     @ js ''          <title>SVG Conversion</title>'' @ nl
     @ js ''          <style>'' @ nl
     @ js ''            body { margin: 0; padding: 0; }'' @ nl
     @ js ''            svg { max-width: 100%; height: auto; }'' @ nl
     @ js ''          </style>'' @ nl
     @ js ''        </head>'' @ nl
     @ js ''        <body>'' @ nl
     @ js ''          '' @ svg @ nl
     @ js ''        </body>'' @ nl
     @ js ''        </html>'' @ nl
     @ js ''      ''"

definition convert_body ::
  "'x runtime \<Rightarrow> jsstring \<Rightarrow> jsstring \<Rightarrow> format \<Rightarrow> jsstring \<Rightarrow> ('x, jsstring) comp" where
  "convert_body rt inputPath inputExt outputFormat outputPath =
     seq (if inputExt = js ''html'' \<and> outputFormat = SVG then
            seq (call (readFileSync rt inputPath)) (\<lambda>html.
              case svg_match html of
                None \<Rightarrow> throw (JsError (js ''No SVG content found in the HTML''))
              | Some svgMatch \<Rightarrow> call (writeFileSync rt outputPath svgMatch))
          else if inputExt = js ''html'' \<and> outputFormat = PNG then
            seq (launch rt) (\<lambda>browser.
              try_finally
                (screenshot_steps rt browser inputPath ChartContainerSize 800 600 outputPath)
                (close rt browser))
          else if inputExt = js ''svg'' \<and> outputFormat = PNG then
            seq (call (readFileSync rt inputPath)) (\<lambda>svg.
              let html = svg_wrapper svg;
                  htmlPath = replace_suffix (js ''.svg'') (js ''.temp.html'') inputPath
              in seq (call (writeFileSync rt htmlPath html)) (\<lambda>u.
                 seq (launch rt) (\<lambda>browser.
                   try_finally
                     (screenshot_steps rt browser htmlPath SvgSize 1920 1080 outputPath)
                     (seq (close rt browser) (\<lambda>u. call (unlinkSync rt htmlPath))))))
          else throw (JsError (js ''Unsupported conversion: '' @ inputExt @ js '' to ''
                                 @ format_str outputFormat)))
       (\<lambda>u. ret outputPath)"

definition convertVisualization :: "'x runtime \<Rightarrow> jsstring \<Rightarrow> format \<Rightarrow> ('x, jsstring) comp" where
  "convertVisualization rt inputPath outputFormat =
     (let inputExt = toLowerCase (drop 1 (extname inputPath)) in
      seq (lift_result (output_path rt inputPath inputExt outputFormat)) (\<lambda>outputPath.
        if inputExt = format_str outputFormat then ret inputPath
        else try_catch (convert_body rt inputPath inputExt outputFormat outputPath)
               (\<lambda>e. throw (JsError (js ''Failed to convert visualization: '' @ error_message e)))))"

section \<open>Publishing (distributeToSocial)\<close>

record publish_result =
  success :: bool
  postId :: "jsstring option"
  url :: "jsstring option"
  error_text :: "jsstring option"

fun integration_of :: "platform \<Rightarrow> jsstring" where
  "integration_of Twitter = js ''twitter-v2''"
| "integration_of LinkedIn = js ''linkedin-v2''"
| "integration_of Telegram = js ''telegram''"

fun endpoint_of :: "platform \<Rightarrow> jsstring" where
  "endpoint_of Twitter = js ''/2/tweets''"
| "endpoint_of LinkedIn = js ''/v2/ugcPosts''"
| "endpoint_of Telegram = js ''/sendPhoto''"

text \<open>
  The \<open>data\<close> of the request. Of the LinkedIn post only the commentary and the media
  vary, the other fields are constants of the source.
\<close>

fun body_of :: "platform \<Rightarrow> jsstring \<Rightarrow> jsstring \<Rightarrow> jsstring \<Rightarrow> request_body" where
  "body_of Twitter fullMsg base64Image imagePath =
     Tweet fullMsg base64Image
       (if extname imagePath = js ''.png'' then js ''image/png'' else js ''image/jpeg'')"
| "body_of LinkedIn fullMsg base64Image imagePath = UgcPost fullMsg base64Image"
| "body_of Telegram fullMsg base64Image imagePath =
     SendPhoto (js ''@your_channel_here'') fullMsg base64Image"

text \<open>
  The result of a call that has returned: \<open>postResponse.data?.id\<close> (for Telegram
  \<open>message_id\<close>), and the URL when the id is truthy.
\<close>

definition optional_id :: "response \<Rightarrow> (response_data \<Rightarrow> jsstring option) \<Rightarrow> jsstring option" where
  "optional_id r field = (case resp_data r of None \<Rightarrow> None | Some d \<Rightarrow> field d)"

fun posted :: "platform \<Rightarrow> response \<Rightarrow> publish_result" where
  "posted Twitter r =
     (let pid = optional_id r data_id
      in \<lparr>success = True, postId = pid,
          url = (if truthy_str pid then Some (js ''https://twitter.com/user/status/'' @ str_or pid [])
                 else None),
          error_text = None\<rparr>)"
| "posted LinkedIn r =
     (let pid = optional_id r data_id
      in \<lparr>success = True, postId = pid,
          url = (if truthy_str pid then Some (js ''https://www.linkedin.com/feed/update/'' @ str_or pid [])
                 else None),
          error_text = None\<rparr>)"
| "posted Telegram r =
     \<lparr>success = True, postId = optional_id r data_message_id, url = None, error_text = None\<rparr>"

definition failed :: "jsstring \<Rightarrow> publish_result" where
  "failed msg = \<lparr>success = False, postId = None, url = None, error_text = Some msg\<rparr>"

definition workspace_of :: "action option \<Rightarrow> jsstring option" where
  "workspace_of act = (case act of None \<Rightarrow> None | Some a \<Rightarrow> workspace a)"

text \<open>
  One round of the loop of \<open>distributeToSocial\<close>: the outer \<open>try\<close> with the check of
  the image, the inner \<open>try\<close> around the call of the integration, and the two handlers,
  each of which stores a result for the platform. A call that returns \<open>undefined\<close> is
  the response \<open>None\<close>; reading \<open>data\<close> from it raises the TypeError of Node, with the
  text of V8.
\<close>

definition publish_attempt ::
  "'x runtime \<Rightarrow> jsstring \<Rightarrow> platform list \<Rightarrow> jsstring \<Rightarrow> jsstring list \<Rightarrow> action option
     \<Rightarrow> platform \<Rightarrow> ('x, publish_result) comp" where
  "publish_attempt rt imagePath platforms msg tgs act p =
     try_catch
       (\<lambda>s. if \<not> existsSync rt imagePath (ext s)
             then ret (failed (js ''Image file not found: '' @ imagePath)) s
             else
               (let fullMsg = fullMessage msg tgs platforms p
                in case workspace_of act of
                     Some wid \<Rightarrow>
                       try_catch
                         (seq (call (readFileSync rt imagePath)) (\<lambda>imageBuffer.
                            let base64Image = toBase64 rt imageBuffer
                            in seq (call (callIntegration rt
                                     \<lparr>workspaceId = wid, integrationId = integration_of p,
                                      endpoint = endpoint_of p, http_method = js ''POST'',
                                      body = body_of p fullMsg base64Image imagePath\<rparr>))
                                 (\<lambda>postResponse.
                                    case postResponse of
                                      None \<Rightarrow>
                                        throw (JsError (js ''Cannot read properties of undefined (reading 'data')''))
                                    | Some r \<Rightarrow> ret (posted p r))))
                         (\<lambda>e. ret (failed (js ''Failed to post to '' @ platform_str p @ js '': ''
                                        @ error_message e)))
                   | None \<Rightarrow>
                       ret (failed (js ''No workspace available for posting to social media''))) s)
       (\<lambda>e. ret (failed (js ''Error posting to '' @ platform_str p @ js '': '' @ error_message e)))"

fun distributeLoop ::
  "'x runtime \<Rightarrow> jsstring \<Rightarrow> platform list \<Rightarrow> jsstring \<Rightarrow> jsstring list \<Rightarrow> action option
     \<Rightarrow> platform list \<Rightarrow> (platform \<rightharpoonup> publish_result)
     \<Rightarrow> ('x, platform \<rightharpoonup> publish_result) comp" where
  "distributeLoop rt imagePath platforms msg tgs act [] results = ret results"
| "distributeLoop rt imagePath platforms msg tgs act (p # ps) results =
     seq (publish_attempt rt imagePath platforms msg tgs act p) (\<lambda>r.
       distributeLoop rt imagePath platforms msg tgs act ps (results(p \<mapsto> r)))"










section \<open>A runtime to run the model on\<close>

text \<open>
  A runtime without state: every file exists and reads as an empty SVG, loading a page
  fails, and the Twitter integration rejects the call while the others answer.
\<close>

definition ok :: "unit \<Rightarrow> (jserror + unit) \<times> unit" where
  "ok x = (Inr (), x)"

definition demo_runtime :: "unit runtime" where
  "demo_runtime =
     \<lparr>cwd = js ''/app'',
      path_resolve = (\<lambda>dir f. dir @ js ''/'' @ f),
      regexp_replace = (\<lambda>pat s r. Inr s),
      toBase64 = (\<lambda>bytes. bytes),
      existsSync = (\<lambda>path x. True),
      mkdirSync = (\<lambda>path. ok),
      readFileSync = (\<lambda>path x. (Inr (js ''<svg></svg>''), x)),
      writeFileSync = (\<lambda>path text. ok),
      unlinkSync = (\<lambda>path. ok),
      puppeteer_launch = ok,
      browser_newPage = (\<lambda>b. ok),
      page_goto = (\<lambda>b u x. (Inl (JsError (js ''net::ERR_FILE_NOT_FOUND'')), x)),
      page_evaluate = (\<lambda>b script x. (Inr (800, 600), x)),
      page_setViewport = (\<lambda>b w h. ok),
      page_screenshot = (\<lambda>b path. ok),
      browser_close = (\<lambda>b. ok),
      import_index = (\<lambda>x. (Inr True, x)),
      uploadFile = (\<lambda>agent wid path file x. (Inr (Some \<lparr>upload_url = None\<rparr>), x)),
      callIntegration = (\<lambda>req x.
        if integrationId req = js ''twitter-v2'' then (Inl (JsError (js ''rate limited'')), x)
        else (Inr (Some \<lparr>resp_data = Some \<lparr>data_id = Some (js ''42''),
                                              data_message_id = Some (js ''7'')\<rparr>\<rparr>), x))\<rparr>"




definition world0 :: "unit world" where
  "world0 = \<lparr>open_browsers = {}, next_browser = 0, ext = ()\<rparr>"


section \<open>Browsers that stay open\<close>

text \<open>
  A computation leaks no browser when every browser that is open after it was open
  before it; it closes \<open>b\<close> when, moreover, \<open>b\<close> is not open after it.
\<close>

definition no_leak :: "('x, 'a) comp \<Rightarrow> bool" where
  "no_leak m \<longleftrightarrow> (\<forall>s. open_browsers (snd (m s)) \<subseteq> open_browsers s)"

definition closes :: "nat \<Rightarrow> ('x, 'a) comp \<Rightarrow> bool" where
  "closes b m \<longleftrightarrow> (\<forall>s. open_browsers (snd (m s)) \<subseteq> open_browsers s - {b})"

section \<open>The template registry (templates/template-interface.ts)\<close>

text \<open>
  A \<open>VisualizationTemplate\<close> over payloads of type \<open>'d\<close>. Its \<open>generate\<close> method, which
  no operation of the registry calls, is left out; \<open>isSuitableFor\<close> is a predicate on the
  payload. The registry's \<open>Map\<close> from ids to templates is the list of its
  entries in the order a JavaScript \<open>Map\<close> iterates them: \<open>set\<close> on a key that is
  present replaces the value where it stands, \<open>set\<close> on a new key appends.
\<close>

record 'd template =
  template_id :: jsstring
  template_name :: jsstring
  description :: jsstring
  suitableFor :: "jsstring list"
  isSuitableFor :: "'d \<Rightarrow> bool"

type_synonym 'd registry = "(jsstring \<times> 'd template) list"

definition new_registry :: "'d registry" where
  "new_registry = []"

fun map_set :: "'k \<Rightarrow> 'v \<Rightarrow> ('k \<times> 'v) list \<Rightarrow> ('k \<times> 'v) list" where
  "map_set k v [] = [(k, v)]"
| "map_set k v ((k', v') # rest) =
     (if k' = k then (k, v) # rest else (k', v') # map_set k v rest)"

definition register :: "'d registry \<Rightarrow> 'd template \<Rightarrow> 'd registry" where
  "register reg t = map_set (template_id t) t reg"

definition get :: "'d registry \<Rightarrow> jsstring \<Rightarrow> 'd template option" where
  "get reg i = map_of reg i"

definition getAll :: "'d registry \<Rightarrow> 'd template list" where
  "getAll reg = map snd reg"

definition findSuitableTemplates :: "'d registry \<Rightarrow> 'd \<Rightarrow> 'd template list" where
  "findSuitableTemplates reg data = filter (\<lambda>t. isSuitableFor t data) (getAll reg)"

text \<open>
  \<open>findBestTemplate(data, preferredType?)\<close>. The optional argument is \<open>None\<close> when it
  is not passed; \<open>if (preferredType)\<close> is false for the empty string as well.
  \<open>suitableTemplates.find(...)\<close> is \<open>find\<close>, and \<open>suitableTemplates[0]\<close> is read only
  after the length check, so it is the head of a list that is not empty.
\<close>

definition findBestTemplate :: "'d registry \<Rightarrow> 'd \<Rightarrow> jsstring option \<Rightarrow> 'd template option" where
  "findBestTemplate reg data preferredType =
     (case findSuitableTemplates reg data of
        [] \<Rightarrow> None
      | first # rest \<Rightarrow>
          (case preferredType of
             None \<Rightarrow> Some first
           | Some pt \<Rightarrow>
               if pt \<noteq> [] then
                 (case find (\<lambda>t. str_includes (template_id t) pt) (first # rest) of
                    Some preferredTemplate \<Rightarrow> Some preferredTemplate
                  | None \<Rightarrow> Some first)
               else Some first))"

text \<open>
  The words of the specification for C2: \<open>r\<close> is the first entry of the list that
  satisfies \<open>P\<close>, in the order of the list, and is absent when no entry satisfies it.
\<close>

definition first_in_order :: "('a \<Rightarrow> bool) \<Rightarrow> 'a list \<Rightarrow> 'a option \<Rightarrow> bool" where
  "first_in_order P xs r \<longleftrightarrow>
     (case r of
        None \<Rightarrow> (\<forall>x \<in> set xs. \<not> P x)
      | Some t \<Rightarrow> (\<exists>i < length xs. xs ! i = t \<and> P t \<and> (\<forall>j < i. \<not> P (xs ! j))))"

text \<open>Two templates over a payload that is a number, to run the registry on.\<close>

definition demo_price :: "nat template" where
  "demo_price = \<lparr>template_id = js ''price-chart'', template_name = js ''Token Price Chart'',
     description = js ''price'', suitableFor = [js ''token-price''],
     isSuitableFor = (\<lambda>d. 0 < d)\<rparr>"

definition demo_tvl :: "nat template" where
  "demo_tvl = \<lparr>template_id = js ''tvl-chart'', template_name = js ''TVL Chart'',
     description = js ''tvl'', suitableFor = [js ''tvl''],
     isSuitableFor = (\<lambda>d. 1 < d)\<rparr>"

definition demo_registry :: "nat registry" where
  "demo_registry = register (register new_registry demo_price) demo_tvl"

section \<open>Properties of the per-platform formatting\<close>

lemma length_js [simp]: "length (js s) = length s"
  by (simp add: js_def)

text \<open>
  C10. \<open>formatMessageForPlatform\<close> truncates for Twitter only. For LinkedIn and Telegram
  it returns every message as it is, whatever its length. For Twitter a message of at
  most 250 code units is returned as it is, a longer one becomes its first 247 code
  units followed by three dots, so the result for Twitter never has more than 250.
\<close>

theorem formatMessageForPlatform_truncates_twitter_only:
  "formatMessageForPlatform m LinkedIn = m
   \<and> formatMessageForPlatform m Telegram = m
   \<and> (length m \<le> 250 \<longrightarrow> formatMessageForPlatform m Twitter = m)
   \<and> (length m > 250 \<longrightarrow> formatMessageForPlatform m Twitter = take 247 m @ js ''...'')
   \<and> length (formatMessageForPlatform m Twitter) \<le> 250"
  by simp

theorem formatMessageForPlatform_truncates_twitter_only_witness:
  "length (replicate 300 (0x61 :: code_unit)) > 250
   \<and> formatMessageForPlatform (replicate 300 0x61) Twitter = replicate 247 0x61 @ js ''...''
   \<and> length (js ''gm'') \<le> 250
   \<and> formatMessageForPlatform (js ''gm'') Twitter = js ''gm''
   \<and> formatMessageForPlatform (replicate 300 0x61) LinkedIn = replicate 300 0x61"
  using formatMessageForPlatform_truncates_twitter_only [of "replicate 300 0x61"]
    formatMessageForPlatform_truncates_twitter_only [of "js ''gm''"]
  by simp

text \<open>
  C4. The text posted to Twitter is the formatted prose, a blank line and the formatted
  hashtags. The prose is cut to 250 code units whatever the hashtags are, so the text can
  be longer than the 280 of the post limit: a prose of 250 code units with the five base
  tags alone gives 298.
\<close>

theorem fullMessage_twitter_exceeds_post_limit:
  "length (fullMessage (replicate 250 0x61) base_tags [Twitter] Twitter) = 298
   \<and> \<not> length (fullMessage (replicate 250 0x61) base_tags [Twitter] Twitter) \<le> twitter_post_limit"
  by (simp add: fullMessage_def formatTagsForPlatforms_def base_tags_def hashtag_def
      strip_whitespace_def twitter_post_limit_def js_def is_space_def)

section \<open>Properties of the template registry\<close>

lemma str_includes_empty [simp]: "str_includes s []"
  by (simp add: str_includes_def)

text \<open>
  The order of the registry is the order of registration: a template with a new id goes
  to the end; and \<open>get\<close> finds the template registered last under an id.
\<close>

lemma getAll_register_new:
  "template_id t \<notin> fst ` set reg \<Longrightarrow> getAll (register reg t) = getAll reg @ [t]"
  unfolding register_def getAll_def
  by (induction reg) auto

lemma get_register: "get (register reg t) (template_id t) = Some t"
  unfolding register_def get_def
  by (induction reg) auto

lemma find_first_in_order: "first_in_order P xs (find P xs)"
proof (cases "find P xs")
  case None
  then have "\<forall>x \<in> set xs. \<not> P x"
    by (simp add: find_None_iff)
  with None show ?thesis
    by (simp add: first_in_order_def)
next
  case (Some t)
  then have "\<exists>i < length xs. xs ! i = t \<and> P t \<and> (\<forall>j < i. \<not> P (xs ! j))"
    unfolding find_Some_iff by auto
  with Some show ?thesis
    by (simp add: first_in_order_def)
qed

lemma find_in_list: "find P xs = Some x \<Longrightarrow> x \<in> set xs \<and> P x"
  by (induction xs) (auto split: if_splits)

lemma find_filter: "find P (filter Q xs) = find (\<lambda>x. Q x \<and> P x) xs"
  by (induction xs) auto

lemma head_filter: "(case filter Q xs of [] \<Rightarrow> None | t # ts \<Rightarrow> Some t) = find Q xs"
  by (induction xs) auto

lemma findBestTemplate_unhinted:
  "findBestTemplate reg data None = find (\<lambda>t. isSuitableFor t data) (getAll reg)"
proof -
  have "findBestTemplate reg data None
      = (case findSuitableTemplates reg data of [] \<Rightarrow> None | t # ts \<Rightarrow> Some t)"
    by (simp add: findBestTemplate_def split: list.splits)
  then show ?thesis
    by (simp only: findSuitableTemplates_def head_filter)
qed

lemma findBestTemplate_via_suitable:
  "findBestTemplate reg data (Some h) =
     (case find (\<lambda>t. str_includes (template_id t) h) (findSuitableTemplates reg data) of
        Some t \<Rightarrow> Some t
      | None \<Rightarrow> (case findSuitableTemplates reg data of [] \<Rightarrow> None | t # ts \<Rightarrow> Some t))"
proof (cases "findSuitableTemplates reg data")
  case Nil
  then show ?thesis by (simp add: findBestTemplate_def)
next
  case (Cons first rest)
  then show ?thesis
    by (cases "h = []") (simp_all add: findBestTemplate_def split: option.splits)
qed

lemma findBestTemplate_hinted:
  "findBestTemplate reg data (Some h) =
     (case find (\<lambda>t. isSuitableFor t data \<and> str_includes (template_id t) h) (getAll reg) of
        Some t \<Rightarrow> Some t
      | None \<Rightarrow> find (\<lambda>t. isSuitableFor t data) (getAll reg))"
  by (simp only: findBestTemplate_via_suitable findSuitableTemplates_def head_filter find_filter)

lemma findBestTemplate_suitable:
  assumes "findBestTemplate reg data hint = Some t"
  shows "t \<in> set (getAll reg) \<and> isSuitableFor t data"
proof (cases hint)
  case None
  with assms have "find (\<lambda>t. isSuitableFor t data) (getAll reg) = Some t"
    by (simp add: findBestTemplate_unhinted)
  then show ?thesis
    by (auto dest: find_in_list)
next
  case (Some h)
  with assms have "find (\<lambda>t. isSuitableFor t data \<and> str_includes (template_id t) h) (getAll reg) = Some t
      \<or> find (\<lambda>t. isSuitableFor t data) (getAll reg) = Some t"
    by (auto simp: findBestTemplate_hinted split: option.splits)
  then show ?thesis
    by (auto dest: find_in_list)
qed

lemma keys_map_set: "fst ` set (map_set k v xs) = insert k (fst ` set xs)"
proof (induction xs)
  case Nil
  show ?case by simp
next
  case (Cons kv xs)
  obtain k' v' where kv: "kv = (k', v')"
    by (cases kv)
  show ?case
  proof (cases "k' = k")
    case True
    then show ?thesis by (simp add: kv)
  next
    case False
    with Cons show ?thesis by (simp add: kv insert_commute)
  qed
qed

lemma keys_register: "fst ` set (register reg t) = insert (template_id t) (fst ` set reg)"
  by (simp add: register_def keys_map_set)

lemma keys_foldl_register:
  "fst ` set (foldl register reg ts) = fst ` set reg \<union> template_id ` set ts"
  by (induction ts arbitrary: reg) (auto simp: keys_register)

lemma getAll_register_all:
  "distinct (map template_id ts) \<Longrightarrow> getAll (foldl register new_registry ts) = ts"
proof (induction ts rule: rev_induct)
  case Nil
  show ?case by (simp add: new_registry_def getAll_def)
next
  case (snoc t ts)
  then have fresh: "template_id t \<notin> fst ` set (foldl register new_registry ts)"
    by (auto simp: keys_foldl_register new_registry_def)
  from snoc have "getAll (foldl register new_registry ts) = ts"
    by simp
  with getAll_register_new [OF fresh] show ?case
    by simp
qed


text \<open>
  C2. On a registry with no template, and whenever no registered template is suitable for
  the payload, \<open>findBestTemplate\<close> returns nothing. What it returns is a registered
  template that is suitable for the payload. With a hint it is the first template of the
  registry, in the order of registration, that is suitable and whose id contains the
  hint; when no suitable id contains the hint, and when no hint is given, it is the first
  template of the registry that is suitable. Templates registered under distinct ids are
  listed in the order in which they were registered. The last three parts say the same
  through \<open>findSuitableTemplates\<close>, which on a registry with no template returns the
  empty list.
\<close>

theorem findBestTemplate_first_match:
  "findBestTemplate new_registry data hint = None
   \<and> ((\<forall>t \<in> set (getAll reg). \<not> isSuitableFor t data) \<longrightarrow> findBestTemplate reg data hint = None)
   \<and> (findBestTemplate reg data hint = Some t \<longrightarrow> t \<in> set (getAll reg) \<and> isSuitableFor t data)
   \<and> (if \<exists>t \<in> set (getAll reg). isSuitableFor t data \<and> str_includes (template_id t) h
       then first_in_order (\<lambda>t. isSuitableFor t data \<and> str_includes (template_id t) h) (getAll reg)
              (findBestTemplate reg data (Some h))
       else first_in_order (\<lambda>t. isSuitableFor t data) (getAll reg)
              (findBestTemplate reg data (Some h)))
   \<and> first_in_order (\<lambda>t. isSuitableFor t data) (getAll reg) (findBestTemplate reg data None)
   \<and> (distinct (map template_id ts) \<longrightarrow> getAll (foldl register new_registry ts) = ts)
   \<and> findBestTemplate reg data (Some h) =
       (case find (\<lambda>t. str_includes (template_id t) h) (findSuitableTemplates reg data) of
          Some t \<Rightarrow> Some t
        | None \<Rightarrow> (case findSuitableTemplates reg data of [] \<Rightarrow> None | t # ts \<Rightarrow> Some t))
   \<and> findBestTemplate reg data None =
       (case findSuitableTemplates reg data of [] \<Rightarrow> None | t # ts \<Rightarrow> Some t)
   \<and> findSuitableTemplates new_registry data = []"
proof -
  have none: "findSuitableTemplates r data = [] \<Longrightarrow> findBestTemplate r data hint = None"
    for r :: "'a registry"
    by (simp add: findBestTemplate_def)
  have unsuitable: "\<forall>t \<in> set (getAll reg). \<not> isSuitableFor t data
      \<Longrightarrow> findSuitableTemplates reg data = []"
    by (simp add: findSuitableTemplates_def filter_empty_conv)
  have empty: "findSuitableTemplates new_registry data = []"
    by (simp add: findSuitableTemplates_def getAll_def new_registry_def)
  have unhinted: "findBestTemplate reg data None =
       (case findSuitableTemplates reg data of [] \<Rightarrow> None | t # ts \<Rightarrow> Some t)"
    by (simp add: findBestTemplate_def split: list.splits)
  have first_hinted:
    "if \<exists>t \<in> set (getAll reg). isSuitableFor t data \<and> str_includes (template_id t) h
     then first_in_order (\<lambda>t. isSuitableFor t data \<and> str_includes (template_id t) h) (getAll reg)
            (findBestTemplate reg data (Some h))
     else first_in_order (\<lambda>t. isSuitableFor t data) (getAll reg)
            (findBestTemplate reg data (Some h))"
  proof (cases "find (\<lambda>t. isSuitableFor t data \<and> str_includes (template_id t) h) (getAll reg)")
    case None
    then have no: "\<not> (\<exists>t \<in> set (getAll reg). isSuitableFor t data \<and> str_includes (template_id t) h)"
      by (simp add: find_None_iff)
    from None have "findBestTemplate reg data (Some h) = find (\<lambda>t. isSuitableFor t data) (getAll reg)"
      by (simp add: findBestTemplate_hinted)
    with no show ?thesis
      by (simp only: find_first_in_order if_False)
  next
    case (Some t)
    then have yes: "\<exists>t \<in> set (getAll reg). isSuitableFor t data \<and> str_includes (template_id t) h"
      by (auto dest: find_in_list)
    from Some have "findBestTemplate reg data (Some h)
        = find (\<lambda>t. isSuitableFor t data \<and> str_includes (template_id t) h) (getAll reg)"
      by (simp add: findBestTemplate_hinted)
    with yes show ?thesis
      by (simp only: find_first_in_order if_True)
  qed
  have first_unhinted:
    "first_in_order (\<lambda>t. isSuitableFor t data) (getAll reg) (findBestTemplate reg data None)"
    by (simp only: findBestTemplate_unhinted find_first_in_order)
  show ?thesis
    using none [OF empty] none [OF unsuitable] findBestTemplate_suitable [of reg data hint t]
      first_hinted first_unhinted getAll_register_all [of ts]
      findBestTemplate_via_suitable [of reg data h] unhinted empty
    by (intro conjI) blast+
qed

theorem findBestTemplate_first_match_witness:
  "list_all (\<lambda>t. \<not> isSuitableFor t 0) (getAll demo_registry)
   \<and> findBestTemplate demo_registry 0 (Some (js ''tvl'')) = None
   \<and> findBestTemplate demo_registry 1 (Some (js ''tvl'')) = Some demo_price
   \<and> findBestTemplate demo_registry 2 (Some (js ''tvl'')) = Some demo_tvl
   \<and> findBestTemplate demo_registry 2 (Some (js ''pie'')) = Some demo_price
   \<and> findBestTemplate demo_registry 2 (Some []) = Some demo_price
   \<and> findBestTemplate demo_registry 2 None = Some demo_price
   \<and> isSuitableFor demo_price 1
   \<and> distinct (map template_id [demo_price, demo_tvl])
   \<and> getAll (foldl register new_registry [demo_price, demo_tvl]) = [demo_price, demo_tvl]"
proof -
  have reg: "getAll demo_registry = [demo_price, demo_tvl]"
    by (simp add: demo_registry_def register_def new_registry_def getAll_def
        demo_price_def demo_tvl_def js_def)
  have suit0: "findSuitableTemplates demo_registry 0 = []"
    by (simp add: findSuitableTemplates_def reg demo_price_def demo_tvl_def)
  have suit1: "findSuitableTemplates demo_registry 1 = [demo_price]"
    by (simp add: findSuitableTemplates_def reg demo_price_def demo_tvl_def)
  have suit2: "findSuitableTemplates demo_registry 2 = [demo_price, demo_tvl]"
    by (simp add: findSuitableTemplates_def reg demo_price_def demo_tvl_def)
  have tvl: "\<not> str_includes (template_id demo_price) (js ''tvl'')"
    "str_includes (template_id demo_tvl) (js ''tvl'')"
    "\<not> str_includes (template_id demo_price) (js ''pie'')"
    "\<not> str_includes (template_id demo_tvl) (js ''pie'')"
    unfolding str_includes_def demo_price_def demo_tvl_def by code_simp+
  have unsuitable: "\<forall>t \<in> set (getAll demo_registry). \<not> isSuitableFor t 0"
    by (simp add: reg demo_price_def demo_tvl_def)
  have ids: "distinct (map template_id [demo_price, demo_tvl])"
    by (simp add: demo_price_def demo_tvl_def js_def)
  note inst = findBestTemplate_first_match [where reg = demo_registry and ts = "[demo_price, demo_tvl]"]
  from inst [where data = 0 and hint = "Some (js ''tvl'')" and h = "js ''tvl''"] unsuitable
  have r0: "findBestTemplate demo_registry 0 (Some (js ''tvl'')) = None"
    by blast
  from inst [where data = 1 and hint = "Some (js ''tvl'')" and h = "js ''tvl''" and t = demo_price]
  have "findBestTemplate demo_registry 1 (Some (js ''tvl'')) =
      (case find (\<lambda>t. str_includes (template_id t) (js ''tvl'')) (findSuitableTemplates demo_registry 1) of
         Some t \<Rightarrow> Some t
       | None \<Rightarrow> (case findSuitableTemplates demo_registry 1 of [] \<Rightarrow> None | t # ts \<Rightarrow> Some t))"
    and suitable: "findBestTemplate demo_registry 1 (Some (js ''tvl'')) = Some demo_price
      \<longrightarrow> demo_price \<in> set (getAll demo_registry) \<and> isSuitableFor demo_price 1"
    by blast+
  then have r1: "findBestTemplate demo_registry 1 (Some (js ''tvl'')) = Some demo_price"
    unfolding suit1 by (simp add: tvl)
  with suitable have s1: "isSuitableFor demo_price 1"
    by blast
  from inst [where data = 2 and hint = None and h = "js ''tvl''"]
  have "findBestTemplate demo_registry 2 (Some (js ''tvl'')) =
      (case find (\<lambda>t. str_includes (template_id t) (js ''tvl'')) (findSuitableTemplates demo_registry 2) of
         Some t \<Rightarrow> Some t
       | None \<Rightarrow> (case findSuitableTemplates demo_registry 2 of [] \<Rightarrow> None | t # ts \<Rightarrow> Some t))"
    and "findBestTemplate demo_registry 2 None =
      (case findSuitableTemplates demo_registry 2 of [] \<Rightarrow> None | t # ts \<Rightarrow> Some t)"
    by blast+
  then have r2: "findBestTemplate demo_registry 2 (Some (js ''tvl'')) = Some demo_tvl"
    and r2n: "findBestTemplate demo_registry 2 None = Some demo_price"
    unfolding suit2 by (simp_all add: tvl)
  from inst [where data = 2 and hint = None and h = "js ''pie''"]
  have "findBestTemplate demo_registry 2 (Some (js ''pie'')) =
      (case find (\<lambda>t. str_includes (template_id t) (js ''pie'')) (findSuitableTemplates demo_registry 2) of
         Some t \<Rightarrow> Some t
       | None \<Rightarrow> (case findSuitableTemplates demo_registry 2 of [] \<Rightarrow> None | t # ts \<Rightarrow> Some t))"
    by blast
  then have r2p: "findBestTemplate demo_registry 2 (Some (js ''pie'')) = Some demo_price"
    unfolding suit2 by (simp add: tvl)
  from inst [where data = 2 and hint = None and h = "[]"]
  have "findBestTemplate demo_registry 2 (Some []) =
      (case find (\<lambda>t. str_includes (template_id t) []) (findSuitableTemplates demo_registry 2) of
         Some t \<Rightarrow> Some t
       | None \<Rightarrow> (case findSuitableTemplates demo_registry 2 of [] \<Rightarrow> None | t # ts \<Rightarrow> Some t))"
    by blast
  then have r2e: "findBestTemplate demo_registry 2 (Some []) = Some demo_price"
    unfolding suit2 by simp
  from inst [where data = 2 and hint = None and h = "[]"] ids
  have order: "getAll (foldl register new_registry [demo_price, demo_tvl]) = [demo_price, demo_tvl]"
    by blast
  have none: "list_all (\<lambda>t. \<not> isSuitableFor t 0) (getAll demo_registry)"
    using unsuitable by (simp only: list_all_iff)
  from none r0 r1 r2 r2p r2e r2n s1 ids order show ?thesis
    by blast
qed

section \<open>Properties of the content formatter\<close>

lemma show_nat_numeral [simp]:
  "show_nat (numeral k) =
     (if (numeral k :: nat) < 10 then [of_nat (48 + numeral k)]
      else show_nat (numeral k div 10) @ [of_nat (48 + numeral k mod 10)])"
  by (rule show_nat.simps)

lemma show_nat_0 [simp]: "show_nat 0 = [48]"
  by (subst show_nat.simps) simp

lemma show_nat_1 [simp]: "show_nat (Suc 0) = [49]"
  by (subst show_nat.simps) simp

lemma set_foldl_set_add: "set (foldl set_add acc xs) = set acc \<union> set xs"
  by (induction xs arbitrary: acc) (auto simp: set_add_def)

lemma distinct_foldl_set_add: "distinct acc \<Longrightarrow> distinct (foldl set_add acc xs)"
  by (induction xs arbitrary: acc) (auto simp: set_add_def)

lemma set_new_Set: "set (new_Set xs) = set xs"
  by (simp add: new_Set_def set_foldl_set_add)

lemma distinct_new_Set: "distinct (new_Set xs)"
  by (simp add: new_Set_def distinct_foldl_set_add)

lemma new_Set_snoc: "new_Set (xs @ [x]) = (if x \<in> set xs then new_Set xs else new_Set xs @ [x])"
  using set_new_Set [of xs] by (simp add: new_Set_def set_add_def)

lemma first_occurrences_snoc:
  "first_occurrences (xs @ [x]) = first_occurrences xs @ (if x \<in> set xs then [] else [x])"
proof -
  have upt: "[0..<length (xs @ [x])] = [0..<length xs] @ [length xs]"
    by simp
  have keep: "filter (\<lambda>i. (xs @ [x]) ! i \<notin> set (take i (xs @ [x]))) [0..<length xs]
      = filter (\<lambda>i. xs ! i \<notin> set (take i xs)) [0..<length xs]"
    by (rule filter_cong) (auto simp: nth_append)
  have same: "map (\<lambda>i. (xs @ [x]) ! i) (filter (\<lambda>i. xs ! i \<notin> set (take i xs)) [0..<length xs])
      = map (\<lambda>i. xs ! i) (filter (\<lambda>i. xs ! i \<notin> set (take i xs)) [0..<length xs])"
    by (rule map_cong) (auto simp: nth_append)
  have last: "map (\<lambda>i. (xs @ [x]) ! i)
        (filter (\<lambda>i. (xs @ [x]) ! i \<notin> set (take i (xs @ [x]))) [length xs])
      = (if x \<in> set xs then [] else [x])"
    by simp
  show ?thesis
    unfolding first_occurrences_def upt filter_append map_append keep same last ..
qed

lemma new_Set_first_occurrences: "new_Set xs = first_occurrences xs"
proof (induction xs rule: rev_induct)
  case Nil
  show ?case by (simp add: new_Set_def first_occurrences_def)
next
  case (snoc x xs)
  then show ?case by (simp add: new_Set_snoc first_occurrences_snoc)
qed

text \<open>
  The cap and the absence of duplicates do not depend on what was pushed: they hold for
  the first 10 entries of \<open>new Set\<close> of any array.
\<close>

lemma new_Set_capped_distinct:
  "length (take 10 (new_Set xs)) \<le> 10 \<and> distinct (take 10 (new_Set xs))"
  by (simp add: distinct_new_Set)

text \<open>
  C7. For every payload, \<open>extractDefaultTags\<close> returns at most 10 tags, no tag twice
  (tags are compared as they are, code unit by code unit), and the tags are the first 10
  of the pushed tags with each tag kept where it occurs for the first time.
\<close>

theorem extractDefaultTags_capped_distinct:
  "length (extractDefaultTags data) \<le> 10
   \<and> distinct (extractDefaultTags data)
   \<and> extractDefaultTags data = take 10 (first_occurrences (pushed_tags data))"
  by (simp add: extractDefaultTags_def distinct_new_Set new_Set_first_occurrences [symmetric])

lemma toFixed_price: "toFixed 6 (2500123456 / 1000000) = js ''2500.123456''"
  unfolding toFixed_def Let_def
  by (simp del: show_nat_numeral) (simp add: js_def)

lemma toFixed_change: "toFixed 2 (- 15 / 10) = js ''-1.50''"
  unfolding toFixed_def Let_def
  by (simp del: show_nat_numeral) (simp add: js_def)

lemma formatNumber_volume: "formatNumber 1200000000 = js ''1.20B''"
  unfolding formatNumber_def toFixed_def Let_def
  by (simp del: show_nat_numeral) (simp add: js_def)

lemma tags_generateSocialContent: "tags (generateSocialContent data p ct) = extractDefaultTags data"
  by (cases ct)
    (simp_all add: generateSocialContent_def token_content_def market_content_def
      default_content_def Let_def split: option.splits)

lemma tags_eth_snapshot: "extractDefaultTags eth_snapshot = base_tags @ [js ''ETH'']"
  by (simp add: extractDefaultTags_def pushed_tags_def eth_snapshot_def empty_payload_def
      base_tags_def truthy_str_def str_or_def present_def num_or0_def new_Set_def set_add_def
      js_def)

theorem extractDefaultTags_capped_distinct_witness:
  "length (extractDefaultTags eth_snapshot) \<le> 10
   \<and> distinct (extractDefaultTags eth_snapshot)
   \<and> base_tags @ [js ''ETH''] = take 10 (first_occurrences (pushed_tags eth_snapshot))"
  using extractDefaultTags_capped_distinct [of eth_snapshot]
  unfolding tags_eth_snapshot by blast

lemma message_eth_snapshot:
  "message (generateSocialContent eth_snapshot Twitter Short)
     = js ''ETH is trading at $2500.123456 (-1.50% 24h) with $1.20B 24h volume.''"
proof -
  have "message (generateSocialContent eth_snapshot Twitter Short)
      = js ''ETH'' @ js '' is trading at $'' @ toFixed 6 (2500123456 / 1000000) @ js '' (''
          @ signed_change (- 15 / 10) @ js ''% 24h) with $'' @ formatNumber 1200000000
          @ js '' 24h volume.''"
    by (simp add: generateSocialContent_def token_content_def eth_snapshot_def
        empty_payload_def str_or_def num_or0_def js_def)
  also have "\<dots> = js ''ETH is trading at $2500.123456 (-1.50% 24h) with $1.20B 24h volume.''"
    by (simp only: toFixed_price toFixed_change formatNumber_volume signed_change_def)
      (simp add: js_def)
  finally show ?thesis .
qed

text \<open>
  C6, as the code has it. For the token snapshot of the scenario, content type
  \<open>short\<close> and Twitter, the message is the sentence below: it contains "ETH", the
  price text "2500.123456" and a percent sign. The tag list is the five base tags and
  "ETH", six entries, within the cap of 10 of \<open>extractDefaultTags\<close>; no cap of 3 is
  applied.
\<close>

theorem generateSocialContent_eth_short:
  "message (generateSocialContent eth_snapshot Twitter Short)
     = js ''ETH is trading at $2500.123456 (-1.50% 24h) with $1.20B 24h volume.''
   \<and> str_includes (message (generateSocialContent eth_snapshot Twitter Short)) (js ''ETH'')
   \<and> str_includes (message (generateSocialContent eth_snapshot Twitter Short)) (js ''2500.123456'')
   \<and> str_includes (message (generateSocialContent eth_snapshot Twitter Short)) (js ''%'')
   \<and> tags (generateSocialContent eth_snapshot Twitter Short) = base_tags @ [js ''ETH'']
   \<and> length (tags (generateSocialContent eth_snapshot Twitter Short)) = 6
   \<and> length (tags (generateSocialContent eth_snapshot Twitter Short)) \<le> 10"
proof -
  have eth: "str_includes (js ''ETH is trading at $2500.123456 (-1.50% 24h) with $1.20B 24h volume.'')
      (js ''ETH'')"
    unfolding str_includes_def by code_simp
  have price: "str_includes (js ''ETH is trading at $2500.123456 (-1.50% 24h) with $1.20B 24h volume.'')
      (js ''2500.123456'')"
    unfolding str_includes_def by code_simp
  have percent: "str_includes (js ''ETH is trading at $2500.123456 (-1.50% 24h) with $1.20B 24h volume.'')
      (js ''%'')"
    unfolding str_includes_def by code_simp
  have tgs: "tags (generateSocialContent eth_snapshot Twitter Short) = base_tags @ [js ''ETH'']"
    by (simp add: tags_generateSocialContent tags_eth_snapshot)
  show ?thesis
    by (simp add: message_eth_snapshot eth price percent tgs base_tags_def)
qed

theorem generateSocialContent_eth_short_witness:
  "length (tags (generateSocialContent eth_snapshot Twitter Short)) = 6"
  using generateSocialContent_eth_short by blast

text \<open>
  C6, as the claim states it, fails: the tag list of the scenario has more than 3
  entries.
\<close>

theorem generateSocialContent_eth_short_tags_exceed_3:
  "\<not> length (tags (generateSocialContent eth_snapshot Twitter Short)) \<le> 3"
  by (simp add: tags_generateSocialContent tags_eth_snapshot base_tags_def)

text \<open>
  C3, as the code has it. For every payload and every platform, content of type
  \<open>thread\<close> has a thread, the thread has at least four entries, and the message is an
  introduction of its own, different from the first entry of the thread.
\<close>

theorem thread_content_has_own_introduction:
  "\<exists>t ts. thread (generateSocialContent data p Thread) = Some (t # ts)
     \<and> 3 \<le> length ts
     \<and> message (generateSocialContent data p Thread) \<noteq> t"
proof (cases "token data")
  case (Some tok)
  have differ: "s @ js '' is currently trading at $'' @ a \<noteq> s @ js '' is trading at $'' @ b"
    for s a b :: jsstring
    by (simp add: js_def)
  show ?thesis
    using differ by (simp add: generateSocialContent_def token_content_def Some Let_def)
next
  case None
  then show ?thesis
    by (simp add: generateSocialContent_def market_content_def default_content_def js_def
        Let_def)
qed

theorem thread_content_has_own_introduction_witness:
  "thread (generateSocialContent empty_payload Twitter Thread) \<noteq> None
   \<and> thread (generateSocialContent eth_snapshot LinkedIn Thread) \<noteq> None"
  using thread_content_has_own_introduction [of empty_payload Twitter]
    thread_content_has_own_introduction [of eth_snapshot LinkedIn]
  by auto

text \<open>
  C3, as the claim states it, fails: for the payload with no property the message is not
  the first entry of the thread.
\<close>

theorem thread_message_is_not_first_entry:
  "\<not> message_is_first_thread_entry (generateSocialContent empty_payload Twitter Thread)"
  by (simp add: message_is_first_thread_entry_def generateSocialContent_def
      default_content_def empty_payload_def present_def js_def)

section \<open>Properties of the schedule\<close>

lemma schedule_loop_eq:
  "schedule_loop now random postCount i schedule
     = schedule @ map (schedule_entry now random) [i..<nat \<lceil>postCount\<rceil>]"
proof (induction now random postCount i schedule rule: schedule_loop.induct)
  case (1 now random postCount i schedule)
  show ?case
  proof (cases "of_nat i < postCount")
    case True
    then have "int i < \<lceil>postCount\<rceil>"
      by (simp add: less_ceiling_iff)
    then have "i < nat \<lceil>postCount\<rceil>"
      by linarith
    then have "[i..<nat \<lceil>postCount\<rceil>] = i # [Suc i..<nat \<lceil>postCount\<rceil>]"
      by (simp add: upt_conv_Cons)
    with True "1.IH" show ?thesis
      by (subst schedule_loop.simps) simp
  next
    case False
    then have "\<not> int i < \<lceil>postCount\<rceil>"
      by (simp add: less_ceiling_iff)
    then have "nat \<lceil>postCount\<rceil> \<le> i"
      by linarith
    then have "[i..<nat \<lceil>postCount\<rceil>] = []"
      by (rule upt_conv_Nil)
    with False show ?thesis
      by (subst schedule_loop.simps) simp
  qed
qed

lemma generatePostSchedule_eq:
  "generatePostSchedule now random postCount
     = map (schedule_entry now random) [0..<nat \<lceil>postCount\<rceil>]"
  by (simp add: generatePostSchedule_def schedule_loop_eq)

lemma generatePostSchedule_3:
  "generatePostSchedule now random 3
     = [schedule_entry now random 0, schedule_entry now random 1, schedule_entry now random 2]"
proof -
  have "[0..<nat \<lceil>3 :: real\<rceil>] = [0, 1, 2]"
    by (simp add: upt_rec)
  then show ?thesis
    by (simp add: generatePostSchedule_eq)
qed

lemma jitter_range:
  assumes "0 \<le> r" and "r < (1 :: real)"
  shows "0 \<le> \<lfloor>r * 2\<rfloor> \<and> \<lfloor>r * 2\<rfloor> \<le> 1"
proof -
  from assms have "0 \<le> r * 2" and "r * 2 < 2"
    by simp_all
  then show ?thesis
    by (simp add: floor_le_iff le_floor_iff)
qed

text \<open>
  C5, as the code has it. Whenever the first part of \<open>createSocialCampaign\<close> has
  produced its visualizations, the campaign for the topic "Ethereum TVL trends",
  platforms \<open>[twitter]\<close>, visualization types \<open>[tvl-chart]\<close>, three posts and no
  thread has a schedule of exactly three entries with strictly increasing times; the
  entries are assigned to twitter, linkedin and telegram in this order, the fixed list of
  \<open>generatePostSchedule\<close>, whatever platforms were requested.
\<close>

theorem createSocialCampaign_schedule:
  assumes "\<forall>i. 0 \<le> random i \<and> random i < 1"
    and "gather (js ''Ethereum TVL trends'') [js ''tvl-chart''] = Inr vizs"
  shows "\<exists>c. createSocialCampaign gather now random (js ''Ethereum TVL trends'') [Twitter]
               [js ''tvl-chart''] 3 False = Inr c
     \<and> length (suggestedSchedule c) = 3
     \<and> map post_platform (suggestedSchedule c) = [js ''twitter'', js ''linkedin'', js ''telegram'']
     \<and> sorted_wrt (<) (map scheduledTime (suggestedSchedule c))"
proof -
  define a b c where "a = \<lfloor>random 0 * 2\<rfloor>" and "b = \<lfloor>random 1 * 2\<rfloor>" and "c = \<lfloor>random 2 * 2\<rfloor>"
  have bounds: "0 \<le> a \<and> a \<le> 1" "0 \<le> b \<and> b \<le> 1" "0 \<le> c \<and> c \<le> 1"
    unfolding a_def b_def c_def using assms by (intro jitter_range; simp)+
  have platforms: "map post_platform (generatePostSchedule now random 3)
      = [js ''twitter'', js ''linkedin'', js ''telegram'']"
    by (simp add: generatePostSchedule_3 schedule_entry_def schedule_platforms_def)
  have instants: "map scheduledTime (generatePostSchedule now random 3)
      = [now + a * 3600000, now + (4 + b) * 3600000, now + (8 + c) * 3600000]"
    unfolding a_def b_def c_def by (simp add: generatePostSchedule_3 schedule_entry_def)
  have times: "sorted_wrt (<) (map scheduledTime (generatePostSchedule now random 3))"
    unfolding instants using bounds by simp
  show ?thesis
    using platforms times assms(2)
    by (simp add: createSocialCampaign_def generatePostSchedule_3)
qed

theorem createSocialCampaign_schedule_witness:
  "map post_platform (case scenario_campaign of Inl e \<Rightarrow> [] | Inr c \<Rightarrow> suggestedSchedule c)
     = [js ''twitter'', js ''linkedin'', js ''telegram'']"
proof -
  have jitter: "\<forall>i. 0 \<le> no_jitter i \<and> no_jitter i < 1"
    by (simp add: no_jitter_def)
  have gathered: "tvl_only (js ''Ethereum TVL trends'') [js ''tvl-chart''] = Inr [tvl_visualization]"
    by (simp add: tvl_only_def)
  from createSocialCampaign_schedule
    [where random = no_jitter and gather = tvl_only and now = 0, OF jitter gathered]
  show ?thesis
    by (auto simp: scenario_campaign_def)
qed

text \<open>
  C5, as the claim states it, fails: in the scenario not every entry of the schedule is
  assigned to twitter.
\<close>

theorem scenario_schedule_not_all_on_twitter:
  "\<not> schedule_all_on (js ''twitter'') scenario_campaign"
  by (simp add: schedule_all_on_def scenario_campaign_def createSocialCampaign_def tvl_only_def
      generatePostSchedule_3 schedule_entry_def schedule_platforms_def js_def)

section \<open>Properties of saving, converting and publishing\<close>

lemma no_leak_ret [simp]: "no_leak (ret v)"
  by (simp add: no_leak_def ret_def)

lemma no_leak_throw [simp]: "no_leak (throw e)"
  by (simp add: no_leak_def throw_def)

lemma no_leak_lift_result [simp]: "no_leak (lift_result r)"
  by (simp add: no_leak_def lift_result_def)

lemma no_leak_call [simp]: "no_leak (call f)"
  by (simp add: no_leak_def call_def split: prod.splits)

lemma no_leakD: "no_leak m \<Longrightarrow> m s = (r, s') \<Longrightarrow> open_browsers s' \<subseteq> open_browsers s"
  by (metis no_leak_def snd_conv)

lemma closesD: "closes b m \<Longrightarrow> m s = (r, s') \<Longrightarrow> open_browsers s' \<subseteq> open_browsers s - {b}"
  by (metis closes_def snd_conv)

lemma no_leak_seq:
  assumes "no_leak m" and "\<And>v. no_leak (f v)"
  shows "no_leak (seq m f)"
  unfolding no_leak_def
proof
  fix s
  obtain r s1 where m: "m s = (r, s1)"
    by (cases "m s")
  show "open_browsers (snd (seq m f s)) \<subseteq> open_browsers s"
  proof (cases r)
    case (Inl e)
    with m assms(1) show ?thesis
      by (simp add: seq_def no_leakD)
  next
    case (Inr v)
    obtain r2 s2 where f: "f v s1 = (r2, s2)"
      by (cases "f v s1")
    from no_leakD [OF assms(1) m] no_leakD [OF assms(2) f]
    show ?thesis
      using m Inr f by (simp add: seq_def)
  qed
qed

lemma no_leak_try_catch:
  assumes "no_leak m" and "\<And>e. no_leak (h e)"
  shows "no_leak (try_catch m h)"
  unfolding no_leak_def
proof
  fix s
  obtain r s1 where m: "m s = (r, s1)"
    by (cases "m s")
  show "open_browsers (snd (try_catch m h s)) \<subseteq> open_browsers s"
  proof (cases r)
    case (Inr v)
    with m assms(1) show ?thesis
      by (simp add: try_catch_def no_leakD)
  next
    case (Inl e)
    obtain r2 s2 where h: "h e s1 = (r2, s2)"
      by (cases "h e s1")
    from no_leakD [OF assms(1) m] no_leakD [OF assms(2) h]
    show ?thesis
      using m Inl h by (simp add: try_catch_def)
  qed
qed

lemma closes_close [simp]: "closes b (close rt b)"
  by (simp add: closes_def close_def split: prod.splits)

lemma closes_seq:
  assumes "closes b m" and "\<And>v. no_leak (f v)"
  shows "closes b (seq m f)"
  unfolding closes_def
proof
  fix s
  obtain r s1 where m: "m s = (r, s1)"
    by (cases "m s")
  show "open_browsers (snd (seq m f s)) \<subseteq> open_browsers s - {b}"
  proof (cases r)
    case (Inl e)
    with m closesD [OF assms(1) m] show ?thesis
      by (simp add: seq_def)
  next
    case (Inr v)
    obtain r2 s2 where f: "f v s1 = (r2, s2)"
      by (cases "f v s1")
    from closesD [OF assms(1) m] no_leakD [OF assms(2) f]
    show ?thesis
      using m Inr f by (simp add: seq_def)
  qed
qed

lemma open_after_launch:
  "launch rt s = (Inr b, s') \<Longrightarrow> open_browsers s' = insert b (open_browsers s)"
  by (auto simp: launch_def split: prod.splits sum.splits)

lemma open_after_failed_launch:
  "launch rt s = (Inl e, s') \<Longrightarrow> open_browsers s' = open_browsers s"
  by (auto simp: launch_def split: prod.splits sum.splits)

lemma no_leak_with_browser:
  assumes work: "\<And>b. no_leak (work b)" and fin: "\<And>b. closes b (fin b)"
  shows "no_leak (seq (launch rt) (\<lambda>b. try_finally (work b) (fin b)))"
  unfolding no_leak_def
proof
  fix s
  show "open_browsers (snd (seq (launch rt) (\<lambda>b. try_finally (work b) (fin b)) s)) \<subseteq> open_browsers s"
  proof (cases "launch rt s")
    case (Pair r s1)
    show ?thesis
    proof (cases r)
      case (Inl e)
      with Pair show ?thesis
        by (simp add: seq_def open_after_failed_launch)
    next
      case (Inr b)
      with Pair have s1: "open_browsers s1 = insert b (open_browsers s)"
        by (simp add: open_after_launch)
      obtain r2 s2 where b2: "work b s1 = (r2, s2)"
        by (cases "work b s1")
      obtain r3 s3 where f3: "fin b s2 = (r3, s3)"
        by (cases "fin b s2")
      from work [of b] b2 have "open_browsers s2 \<subseteq> open_browsers s1"
        by (rule no_leakD)
      moreover from fin [of b] f3 have "open_browsers s3 \<subseteq> open_browsers s2 - {b}"
        by (rule closesD)
      ultimately have "open_browsers s3 \<subseteq> open_browsers s"
        using s1 by auto
      moreover have "snd (seq (launch rt) (\<lambda>b. try_finally (work b) (fin b)) s) = s3"
        using Pair Inr b2 f3 by (simp add: seq_def try_finally_def split: sum.splits)
      ultimately show ?thesis by simp
    qed
  qed
qed

lemma no_leak_screenshot_steps [simp]: "no_leak (screenshot_steps rt b f script w h out)"
  unfolding screenshot_steps_def by (intro no_leak_seq no_leak_call)

lemma no_leak_agentToUse [simp]: "no_leak (agentToUse rt a)"
  unfolding agentToUse_def by (auto intro!: no_leak_seq)

lemma no_leak_upload_or_local [simp]: "no_leak (upload_or_local rt act fullFilename outputPath)"
  unfolding upload_or_local_def Let_def
  by (auto intro!: no_leak_seq no_leak_try_catch split: option.splits)

lemma no_leak_mkdir: "no_leak (\<lambda>s. if \<not> existsSync rt d (ext s) then call (mkdirSync rt d) s else ret () s)"
  using no_leak_call [of "mkdirSync rt d"] by (simp add: no_leak_def ret_def)

lemma no_leak_saveVisualization: "no_leak (saveVisualization rt html filename fmt act)"
  unfolding saveVisualization_def Let_def
  by (intro no_leak_seq no_leak_try_catch no_leak_mkdir)
    (auto intro!: no_leak_seq no_leak_with_browser split: format.splits option.splits)

lemma no_leak_convert_body: "no_leak (convert_body rt inputPath inputExt outputFormat outputPath)"
  unfolding convert_body_def Let_def
  by (auto intro!: no_leak_seq no_leak_with_browser closes_seq split: option.splits)

lemma no_leak_convertVisualization: "no_leak (convertVisualization rt inputPath outputFormat)"
  unfolding convertVisualization_def Let_def
  by (auto intro!: no_leak_seq no_leak_try_catch no_leak_convert_body)


text \<open>
  C9. Every browser launched while a visualization is saved or converted is closed
  again, on every way out: whatever the calls of the file system, of Puppeteer and of the
  host return or throw, a browser that is open after \<open>saveVisualization\<close> or
  \<open>convertVisualization\<close> was open before the call already.
\<close>

theorem browsers_closed_on_every_path:
  "open_browsers (snd (saveVisualization rt html filename fmt act s)) \<subseteq> open_browsers s
   \<and> open_browsers (snd (convertVisualization rt inputPath outputFormat s')) \<subseteq> open_browsers s'"
  using no_leak_saveVisualization [of rt html filename fmt act]
    no_leak_convertVisualization [of rt inputPath outputFormat]
  unfolding no_leak_def by blast

text \<open>The path and pattern functions on examples from the documentation of Node.\<close>

lemma extname_examples:
  "extname (js ''index.coffee.md'') = js ''.md''"
  "extname (js ''index.'') = js ''.''"
  "extname (js ''index'') = []"
  "extname (js ''.index'') = []"
  "extname (js ''.index.md'') = js ''.md''"
  "extname (js ''/out.dir/chart/'') = []"
  by (simp_all add: extname_def last_segment_def js_def slash_def dot_def)

lemma svg_match_example:
  "svg_match (js ''<p><SVG width=1><g/></svg></p></svg>'') = Some (js ''<SVG width=1><g/></svg>'')"
  "svg_match (js ''<svg <p>no end</p>'') = None"
  by (simp_all add: svg_at_def starts_with_ci_def toLowerCase_def lower_unit_def js_def)

lemma extname_chart_html: "extname (js ''/output/chart.html'') = js ''.html''"
  by (simp add: extname_def last_segment_def js_def slash_def dot_def)

lemma extname_chart_PNG: "extname (js ''/output/chart.PNG'') = js ''.PNG''"
  by (simp add: extname_def last_segment_def js_def slash_def dot_def)

lemma regexp_plain_format: "regexp_plain (format_str f)"
  by (cases f) (simp_all add: regexp_plain_def js_def)

lemma convert_demo_run:
  "convertVisualization demo_runtime (js ''/output/chart.html'') PNG world0
     = (Inl (JsError (js ''Failed to convert visualization: net::ERR_FILE_NOT_FOUND'')),
        \<lparr>open_browsers = {}, next_browser = 1, ext = ()\<rparr>)"
proof -
  have ext: "toLowerCase (drop 1 (extname (js ''/output/chart.html''))) = js ''html''"
    by (simp add: extname_chart_html) (simp add: js_def toLowerCase_def lower_unit_def)
  have plain: "regexp_plain (js ''html'')"
    using regexp_plain_format [of HTML] by simp
  have differ: "js ''html'' \<noteq> js ''png''" "js ''html'' \<noteq> js ''svg''"
    by (simp_all add: js_def)
  show ?thesis
    unfolding convertVisualization_def Let_def ext
    by (simp add: output_path_def plain differ convert_body_def seq_def lift_result_def
        try_catch_def try_finally_def launch_def close_def screenshot_steps_def call_def
        throw_def ret_def demo_runtime_def world0_def ok_def)
      (simp add: js_def)
qed

theorem browsers_closed_on_every_path_witness:
  "next_browser (snd (convertVisualization demo_runtime (js ''/output/chart.html'') PNG world0)) = 1
   \<and> open_browsers (snd (convertVisualization demo_runtime (js ''/output/chart.html'') PNG world0)) = {}"
proof -
  have launched:
    "next_browser (snd (convertVisualization demo_runtime (js ''/output/chart.html'') PNG world0)) = 1"
    by (simp add: convert_demo_run)
  from browsers_closed_on_every_path
    [where rt = demo_runtime and inputPath = "js ''/output/chart.html''" and outputFormat = PNG
       and s' = world0]
  have "open_browsers (snd (convertVisualization demo_runtime (js ''/output/chart.html'') PNG world0))
      \<subseteq> open_browsers world0"
    by blast
  then have "open_browsers (snd (convertVisualization demo_runtime (js ''/output/chart.html'') PNG world0))
      = {}"
    by (simp add: world0_def)
  with launched show ?thesis
    by simp
qed

text \<open>
  C8. Converting to the format the input has already does nothing: when the extension of
  the input path, in lower case, is the target format, \<open>convertVisualization\<close> returns
  the input path itself and leaves the world as it was, so no file is written and no
  browser launched.
\<close>

theorem convert_same_format_is_noop:
  assumes "toLowerCase (drop 1 (extname inputPath)) = format_str outputFormat"
  shows "convertVisualization rt inputPath outputFormat s = (Inr inputPath, s)"
  unfolding convertVisualization_def Let_def assms
  by (simp add: output_path_def regexp_plain_format seq_def lift_result_def ret_def)

theorem convert_same_format_is_noop_witness:
  "toLowerCase (drop 1 (extname (js ''/output/chart.PNG''))) = format_str PNG
   \<and> convertVisualization demo_runtime (js ''/output/chart.PNG'') PNG world0
       = (Inr (js ''/output/chart.PNG''), world0)"
proof -
  have ext: "toLowerCase (drop 1 (extname (js ''/output/chart.PNG''))) = format_str PNG"
    by (simp add: extname_chart_PNG) (simp add: js_def toLowerCase_def lower_unit_def)
  from convert_same_format_is_noop [OF ext, of demo_runtime world0] ext
  show ?thesis by simp
qed


lemma publish_attempt_returns:
  "\<exists>r s'. publish_attempt rt imagePath platforms msg tgs act p s = (Inr r, s')"
  by (auto simp: publish_attempt_def try_catch_def seq_def ret_def throw_def call_def Let_def
      split: prod.splits sum.splits option.splits)

lemma distributeLoop_returns:
  "\<exists>rs s'. distributeLoop rt imagePath platforms msg tgs act ps acc s = (Inr rs, s')
     \<and> dom rs = dom acc \<union> set ps"
proof (induction ps arbitrary: acc s)
  case Nil
  show ?case by (simp add: ret_def)
next
  case (Cons p ps)
  obtain r s1 where attempt: "publish_attempt rt imagePath platforms msg tgs act p s = (Inr r, s1)"
    using publish_attempt_returns by blast
  from Cons.IH [of "acc(p \<mapsto> r)" s1] obtain rs s2 where
    loop: "distributeLoop rt imagePath platforms msg tgs act ps (acc(p \<mapsto> r)) s1 = (Inr rs, s2)"
    and keys: "dom rs = dom (acc(p \<mapsto> r)) \<union> set ps"
    by blast
  have "distributeLoop rt imagePath platforms msg tgs act (p # ps) acc s = (Inr rs, s2)"
    using attempt loop by (simp add: seq_def)
  moreover have "dom rs = dom acc \<union> set (p # ps)"
    using keys by simp
  ultimately show ?case
    by blast
qed





















end
